theory Spec2Isabelle
  imports Main
begin

section \<open>Documents of the incident store and of the responder registry\<close>

text \<open>
  The two Cloud Functions \<^verbatim>\<open>autoDispatch\<close> (autoDispatch.js) and
  \<^verbatim>\<open>onNewIncident\<close> (onNewIncident.js) read and write Firestore documents of the
  collections \<^verbatim>\<open>incidents\<close> and \<^verbatim>\<open>responders\<close>. A document is a record of the
  fields the two functions read or write; a field the code tests for presence, or writes
  only on some paths, is an \<open>option\<close>. Status values stay the strings the source
  compares and writes. Coordinates are kept in the decimal rendering the template literal
  of the notification body prints.
\<close>

record geo =
  latitude :: string
  longitude :: string

record incident =
  status :: string
  anomalyType :: string
  location :: "geo option"
  videoUrl :: "string option"
  dispatchedTo :: "string option"
  routeDuration :: "string option"
  dispatchedAt :: "nat option"
  dispatchAttemptedAt :: "nat option"
  dispatchMessage :: "string option"
  dispatchErrorMessage :: "string option"
  visionInsights :: "string list option"
  geminiSummary :: "string option"
  processingTimeMs :: "int option"
  analyzedAt :: "nat option"
  errorMessage :: "string option"

record responder =
  rstatus :: string
  rlocation :: "geo option"
  fcmToken :: "string option"
  currentIncidentId :: "string option"

text \<open>A thrown JavaScript error; the handlers read only its \<^verbatim>\<open>message\<close>.\<close>

datatype js_error = JsError (message: string)

text \<open>The message object built at autoDispatch.js lines 94-107.\<close>

record fcm_message =
  title :: string
  body :: string
  data_incidentId :: string
  data_anomalyType :: string
  data_videoUrl :: "string option"
  data_routeDetails :: string
  data_responderId :: string
  token :: string

text \<open>
  What an invocation did to the outside world, in the order it happened: a document
  update the store accepted, or a push message the gateway accepted.
\<close>

datatype effect =
  IncidentWrite string
| ResponderWrite string
| Notification fcm_message

text \<open>
  The external state: the \<^verbatim>\<open>incidents\<close> collection keyed by document id, the
  \<^verbatim>\<open>responders\<close> collection as the rows of the collection in the order a query
  scans them (document ids are the first components), and the effects so far.
\<close>

record world =
  incidents :: "string \<rightharpoonup> incident"
  responders :: "(string \<times> responder) list"
  effects :: "effect list"

section \<open>The external calls\<close>

text \<open>
  Every external call can reject. The environment of one invocation of
  \<^verbatim>\<open>autoDispatch\<close> says, for each call site, whether the service rejects there (and
  with which error), and gives the server timestamp.
\<close>

record env =
  get_fault :: "js_error option"              \<comment> \<open>line 40, \<^verbatim>\<open>incidentRef.get()\<close>\<close>
  query_fault :: "js_error option"            \<comment> \<open>line 56, the responders query\<close>
  pending_write_fault :: "js_error option"    \<comment> \<open>line 59, \<^verbatim>\<open>incidentRef.update\<close>\<close>
  send_fault :: "js_error option"             \<comment> \<open>line 109, \<^verbatim>\<open>admin.messaging().send\<close>\<close>
  incident_write_fault :: "js_error option"   \<comment> \<open>line 116, \<^verbatim>\<open>incidentRef.update\<close>\<close>
  responder_write_fault :: "js_error option"  \<comment> \<open>line 122, the responder update\<close>
  failure_write_fault :: "js_error option"    \<comment> \<open>line 133, the update in the catch block\<close>
  now :: nat                                  \<comment> \<open>\<^verbatim>\<open>FieldValue.serverTimestamp()\<close>\<close>

text \<open>\<^verbatim>\<open>doc(id).get()\<close>: the snapshot, \<open>None\<close> when the document does not exist.\<close>

definition incident_get :: "js_error option \<Rightarrow> string \<Rightarrow> world \<Rightarrow> js_error + incident option" where
  "incident_get fault incidentId w =
     (case fault of
        Some e \<Rightarrow> Inl e
      | None \<Rightarrow> Inr (incidents w incidentId))"

text \<open>
  \<^verbatim>\<open>doc(id).update(fields)\<close>: merges the fields into the existing document; Firestore
  rejects an update of a document that does not exist (the error's text is the store's;
  the model keeps its status line).
\<close>

definition incident_update ::
  "js_error option \<Rightarrow> string \<Rightarrow> (incident \<Rightarrow> incident) \<Rightarrow> world \<Rightarrow> js_error + world" where
  "incident_update fault incidentId upd w =
     (case fault of
        Some e \<Rightarrow> Inl e
      | None \<Rightarrow>
          (case incidents w incidentId of
             None \<Rightarrow> Inl (JsError ''5 NOT_FOUND: No document to update'')
           | Some d \<Rightarrow>
               Inr (w\<lparr>incidents := (incidents w)(incidentId \<mapsto> upd d),
                      effects := effects w @ [IncidentWrite incidentId]\<rparr>)))"

text \<open>The row of a document id, and the rows with that document's fields replaced.\<close>

fun lookup_doc :: "string \<Rightarrow> (string \<times> responder) list \<Rightarrow> responder option" where
  "lookup_doc k [] = None"
| "lookup_doc k ((k', r) # rows) = (if k' = k then Some r else lookup_doc k rows)"

fun update_doc ::
  "string \<Rightarrow> (responder \<Rightarrow> responder) \<Rightarrow> (string \<times> responder) list \<Rightarrow> (string \<times> responder) list" where
  "update_doc k upd [] = []"
| "update_doc k upd ((k', r) # rows) =
     (if k' = k then (k', upd r) # rows else (k', r) # update_doc k upd rows)"

definition responder_update ::
  "js_error option \<Rightarrow> string \<Rightarrow> (responder \<Rightarrow> responder) \<Rightarrow> world \<Rightarrow> js_error + world" where
  "responder_update fault responderId upd w =
     (case fault of
        Some e \<Rightarrow> Inl e
      | None \<Rightarrow>
          (case lookup_doc responderId (responders w) of
             None \<Rightarrow> Inl (JsError ''5 NOT_FOUND: No document to update'')
           | Some r \<Rightarrow>
               Inr (w\<lparr>responders := update_doc responderId upd (responders w),
                      effects := effects w @ [ResponderWrite responderId]\<rparr>)))"

text \<open>
  \<^verbatim>\<open>db.collection('responders').where('status', '==', 'available').limit(1).get()\<close>:
  the first row, in scan order, whose status is \<^verbatim>\<open>available\<close>, or no row.
\<close>

definition query_available :: "js_error option \<Rightarrow> world \<Rightarrow> js_error + (string \<times> responder) list" where
  "query_available fault w =
     (case fault of
        Some e \<Rightarrow> Inl e
      | None \<Rightarrow> Inr (take 1 (filter (\<lambda>(k, r). rstatus r = ''available'') (responders w))))"

definition messaging_send :: "js_error option \<Rightarrow> fcm_message \<Rightarrow> world \<Rightarrow> js_error + world" where
  "messaging_send fault m w =
     (case fault of
        Some e \<Rightarrow> Inl e
      | None \<Rightarrow> Inr (w\<lparr>effects := effects w @ [Notification m]\<rparr>))"

section \<open>autoDispatch\<close>

definition simulatedRouteDuration :: string where
  "simulatedRouteDuration = ''5 minutes (simulated)''"

definition simulatedRouteDetails :: string where
  "simulatedRouteDetails = ''Simulated fastest route via Main Street.''"

text \<open>
  JavaScript truthiness of \<^verbatim>\<open>responderData.fcmToken\<close> (line 93): a missing field and
  the empty string are both falsy.
\<close>

definition has_fcmToken :: "responder \<Rightarrow> bool" where
  "has_fcmToken r = (case fcmToken r of None \<Rightarrow> False | Some t \<Rightarrow> t \<noteq> [])"

text \<open>
  Lines 94-107. Reading \<^verbatim>\<open>incidentData.location.latitude\<close> of an incident without a
  \<^verbatim>\<open>location\<close> field throws a TypeError (the text of its message is the engine's).
\<close>

definition build_message ::
  "string \<Rightarrow> incident \<Rightarrow> string \<Rightarrow> string \<Rightarrow> js_error + fcm_message" where
  "build_message incidentId incidentData responderId tok =
     (case location incidentData of
        None \<Rightarrow> Inl (JsError ''Cannot read properties of undefined (reading latitude)'')
      | Some loc \<Rightarrow>
          Inr \<lparr>title = ''New Incident: '' @ anomalyType incidentData,
               body = ''Proceed to location: '' @ latitude loc @ '', '' @ longitude loc
                      @ ''. Estimated travel: '' @ simulatedRouteDuration @ ''.'',
               data_incidentId = incidentId,
               data_anomalyType = anomalyType incidentData,
               data_videoUrl = videoUrl incidentData,
               data_routeDetails = simulatedRouteDetails,
               data_responderId = responderId,
               token = tok\<rparr>)"

text \<open>Lines 93-113: the notification, skipped with a warning when there is no token.\<close>

definition notify_responder ::
  "env \<Rightarrow> string \<Rightarrow> incident \<Rightarrow> string \<Rightarrow> responder \<Rightarrow> world \<Rightarrow> js_error + world" where
  "notify_responder en incidentId incidentData responderId responderData w =
     (case fcmToken responderData of
        None \<Rightarrow> Inr w
      | Some tok \<Rightarrow>
          if tok = [] then Inr w
          else
            (case build_message incidentId incidentData responderId tok of
               Inl e \<Rightarrow> Inl e
             | Inr m \<Rightarrow> messaging_send (send_fault en) m w))"

text \<open>The objects passed to \<^verbatim>\<open>update\<close> at lines 59-63, 116-121, 122-125 and 133-137.\<close>

definition pending_dispatch_fields :: "env \<Rightarrow> incident \<Rightarrow> incident" where
  "pending_dispatch_fields en d =
     d\<lparr>status := ''pending_dispatch'',
       dispatchAttemptedAt := Some (now en),
       dispatchMessage := Some ''No available responders.''\<rparr>"

definition dispatched_fields :: "env \<Rightarrow> string \<Rightarrow> incident \<Rightarrow> incident" where
  "dispatched_fields en responderId d =
     d\<lparr>status := ''dispatched'',
       dispatchedTo := Some responderId,
       routeDuration := Some simulatedRouteDuration,
       dispatchedAt := Some (now en)\<rparr>"

definition en_route_fields :: "string \<Rightarrow> responder \<Rightarrow> responder" where
  "en_route_fields incidentId r =
     r\<lparr>rstatus := ''en_route'',
       currentIncidentId := Some incidentId\<rparr>"

definition dispatch_failed_fields :: "env \<Rightarrow> js_error \<Rightarrow> incident \<Rightarrow> incident" where
  "dispatch_failed_fields en error d =
     d\<lparr>status := ''dispatch_failed'',
       dispatchErrorMessage := Some (message error),
       dispatchAttemptedAt := Some (now en)\<rparr>"

text \<open>
  The body of the \<^verbatim>\<open>try\<close> block, lines 39-128. The result is the error thrown, if
  any, and the world at that moment: what was written before a throw stays written.
\<close>

definition dispatch_try :: "env \<Rightarrow> string \<Rightarrow> world \<Rightarrow> js_error option \<times> world" where
  "dispatch_try en incidentId w =
     (case incident_get (get_fault en) incidentId w of
        Inl e \<Rightarrow> (Some e, w)
      | Inr None \<Rightarrow> (None, w)
      | Inr (Some incidentData) \<Rightarrow>
          if status incidentData = ''dispatched'' \<or> status incidentData = ''resolved''
          then (None, w)
          else
            (case query_available (query_fault en) w of
               Inl e \<Rightarrow> (Some e, w)
             | Inr [] \<Rightarrow>
                 (case incident_update (pending_write_fault en) incidentId
                         (pending_dispatch_fields en) w of
                    Inl e \<Rightarrow> (Some e, w)
                  | Inr w1 \<Rightarrow> (None, w1))
             | Inr ((responderId, responderData) # _) \<Rightarrow>
                 (case notify_responder en incidentId incidentData responderId responderData w of
                    Inl e \<Rightarrow> (Some e, w)
                  | Inr w1 \<Rightarrow>
                      (case incident_update (incident_write_fault en) incidentId
                              (dispatched_fields en responderId) w1 of
                         Inl e \<Rightarrow> (Some e, w1)
                       | Inr w2 \<Rightarrow>
                           (case responder_update (responder_write_fault en) responderId
                                   (en_route_fields incidentId) w2 of
                              Inl e \<Rightarrow> (Some e, w2)
                            | Inr w3 \<Rightarrow> (None, w3))))))"

text \<open>
  How the async handler ends: it resolves (with \<^verbatim>\<open>null\<close>), or it rejects with the
  error the \<^verbatim>\<open>catch\<close> block itself threw.
\<close>

datatype outcome = Returned | Rejected js_error

text \<open>
  The handler, lines 27-140. The trigger payload is its \<^verbatim>\<open>incidentId\<close>, \<open>None\<close>
  when the field is missing; \<^verbatim>\<open>!incidentId\<close> also holds for the empty string.
\<close>

definition autoDispatch :: "env \<Rightarrow> string option \<Rightarrow> world \<Rightarrow> outcome \<times> world" where
  "autoDispatch en payload w =
     (case payload of
        None \<Rightarrow> (Returned, w)
      | Some incidentId \<Rightarrow>
          if incidentId = [] then (Returned, w)
          else
            (case dispatch_try en incidentId w of
               (None, w') \<Rightarrow> (Returned, w')
             | (Some error, w') \<Rightarrow>
                 (case incident_update (failure_write_fault en) incidentId
                         (dispatch_failed_fields en error) w' of
                    Inl e \<Rightarrow> (Rejected e, w')
                  | Inr w'' \<Rightarrow> (Returned, w''))))"

section \<open>onNewIncident\<close>

text \<open>
  The trigger payload of onNewIncident.js, lines 28-33. The location is kept as the text
  \<^verbatim>\<open>JSON.stringify(location)\<close> gives; a missing \<^verbatim>\<open>incidentId\<close> is \<open>None\<close>.
\<close>

record analysis_trigger =
  t_incidentId :: "string option"
  t_videoUrl :: string
  t_anomalyType :: string
  t_deviceId :: string
  t_location :: string

text \<open>
  The decoded body of the generative service's response, at the shape lines 80-83
  inspect: a missing (or falsy) property is \<open>None\<close>, and so is a \<^verbatim>\<open>null\<close> array
  element.
\<close>

datatype part = Part (part_text: "string option")

datatype content = Content (parts: "part option list option")

datatype candidate = Candidate (content: "content option")

datatype gemini_result = JsonNull | JsonObject (candidates: "candidate option list option")

text \<open>
  The environment of one invocation of \<^verbatim>\<open>onNewIncident\<close>: the generative service
  (from the prompt sent to it: \<^verbatim>\<open>fetch\<close> rejects, or \<^verbatim>\<open>response.json()\<close>
  rejects, or the body decodes), the two write sites, the two readings of
  \<^verbatim>\<open>Date.now()\<close> and the server timestamp.
\<close>

record analysis_env =
  gemini_fetch :: "string \<Rightarrow> js_error + (js_error + gemini_result)"  \<comment> \<open>lines 72-77\<close>
  analyzed_write_fault :: "js_error option"      \<comment> \<open>line 94, the update of the try block\<close>
  failed_write_fault :: "js_error option"        \<comment> \<open>line 106, the update of the catch block\<close>
  startTime :: int
  endTime :: int
  a_now :: nat

text \<open>
  \<^verbatim>\<open>db.collection('incidents').doc(incidentId)\<close>: the Admin SDK throws on a document
  path that is not a non-empty string.
\<close>

definition incidents_doc :: "string option \<Rightarrow> js_error + string" where
  "incidents_doc incidentId =
     (case incidentId of
        None \<Rightarrow> Inl (JsError ''Value for argument documentPath is not a valid resource path.'')
      | Some k \<Rightarrow>
          if k = [] then Inl (JsError ''Value for argument documentPath is not a valid resource path.'')
          else Inr k)"

text \<open>\<^verbatim>\<open>Array.prototype.join\<close>.\<close>

fun join_with :: "string \<Rightarrow> string list \<Rightarrow> string" where
  "join_with sep [] = []"
| "join_with sep [x] = x"
| "join_with sep (x # y # ys) = x @ sep @ join_with sep (y # ys)"

text \<open>Line 50.\<close>

definition simulated_visionInsights :: "string \<Rightarrow> string list" where
  "simulated_visionInsights anomaly =
     [''Detailed analysis of '' @ anomaly @ '' confirmed.'', ''Crowd movement patterns analyzed.'']"

text \<open>Lines 61-63.\<close>

definition build_prompt :: "analysis_trigger \<Rightarrow> string list \<Rightarrow> string" where
  "build_prompt trig insights =
     ''An incident of type '' @ [CHR 0x22] @ t_anomalyType trig @ [CHR 0x22]
     @ '' was detected by device '' @ t_deviceId trig
     @ '' at location '' @ t_location trig @ ''.'' @ [CHR 0x0A]
     @ ''        Video analysis insights: '' @ join_with '', '' insights @ ''.'' @ [CHR 0x0A]
     @ ''        Please provide a concise situational summary and recommend immediate actions.''"

text \<open>
  Lines 79-89: the summary taken from the decoded body. Reading a property of
  \<^verbatim>\<open>null\<close>, and \<^verbatim>\<open>substring\<close> on a summary that is not a string, throw a
  TypeError; a body without a usable candidate does not throw.
\<close>

definition extract_summary :: "gemini_result \<Rightarrow> js_error + string" where
  "extract_summary result =
     (case result of
        JsonNull \<Rightarrow> Inl (JsError ''Cannot read properties of null (reading candidates)'')
      | JsonObject cands \<Rightarrow>
          (case cands of
             None \<Rightarrow> Inr ''AI analysis inconclusive or response format error.''
           | Some [] \<Rightarrow> Inr ''AI analysis inconclusive or response format error.''
           | Some (None # _) \<Rightarrow> Inl (JsError ''Cannot read properties of null (reading content)'')
           | Some (Some c # _) \<Rightarrow>
               (case content c of
                  None \<Rightarrow> Inr ''AI analysis inconclusive or response format error.''
                | Some ct \<Rightarrow>
                    (case parts ct of
                       None \<Rightarrow> Inr ''AI analysis inconclusive or response format error.''
                     | Some [] \<Rightarrow> Inr ''AI analysis inconclusive or response format error.''
                     | Some (None # _) \<Rightarrow>
                         Inl (JsError ''Cannot read properties of null (reading text)'')
                     | Some (Some p # _) \<Rightarrow>
                         (case part_text p of
                            None \<Rightarrow>
                              Inl (JsError ''Cannot read properties of undefined (reading substring)'')
                          | Some summary \<Rightarrow> Inr summary)))))"

text \<open>The objects passed to \<^verbatim>\<open>update\<close> at lines 94-100 and 106-110.\<close>

definition analyzed_fields :: "analysis_env \<Rightarrow> string list \<Rightarrow> string \<Rightarrow> incident \<Rightarrow> incident" where
  "analyzed_fields en insights summary d =
     d\<lparr>status := ''analyzed'',
       visionInsights := Some insights,
       geminiSummary := Some summary,
       processingTimeMs := Some (endTime en - startTime en),
       analyzedAt := Some (a_now en)\<rparr>"

definition analysis_failed_fields :: "analysis_env \<Rightarrow> js_error \<Rightarrow> incident \<Rightarrow> incident" where
  "analysis_failed_fields en error d =
     d\<lparr>status := ''analysis_failed'',
       errorMessage := Some (message error),
       analyzedAt := Some (a_now en)\<rparr>"

text \<open>
  The body of the \<^verbatim>\<open>try\<close> block, lines 38-101. The simulated delay of line 51
  changes no state and is left out; the log lines are left out as well, except for the
  \<^verbatim>\<open>substring\<close> call of line 89, which can throw.
\<close>

definition analyze_try :: "analysis_env \<Rightarrow> analysis_trigger \<Rightarrow> world \<Rightarrow> js_error option \<times> world" where
  "analyze_try en trig w =
     (let visionInsights' = simulated_visionInsights (t_anomalyType trig);
          prompt = build_prompt trig visionInsights'
      in case gemini_fetch en prompt of
           Inl e \<Rightarrow> (Some e, w)
         | Inr (Inl e) \<Rightarrow> (Some e, w)
         | Inr (Inr result) \<Rightarrow>
             (case extract_summary result of
                Inl e \<Rightarrow> (Some e, w)
              | Inr geminiSummary' \<Rightarrow>
                  (case incidents_doc (t_incidentId trig) of
                     Inl e \<Rightarrow> (Some e, w)
                   | Inr k \<Rightarrow>
                       (case incident_update (analyzed_write_fault en) k
                               (analyzed_fields en visionInsights' geminiSummary') w of
                          Inl e \<Rightarrow> (Some e, w)
                        | Inr w1 \<Rightarrow> (None, w1)))))"

text \<open>The handler, lines 26-112.\<close>

definition onNewIncident :: "analysis_env \<Rightarrow> analysis_trigger \<Rightarrow> world \<Rightarrow> outcome \<times> world" where
  "onNewIncident en trig w =
     (case analyze_try en trig w of
        (None, w') \<Rightarrow> (Returned, w')
      | (Some error, w') \<Rightarrow>
          (case incidents_doc (t_incidentId trig) of
             Inl e \<Rightarrow> (Rejected e, w')
           | Inr k \<Rightarrow>
               (case incident_update (failed_write_fault en) k
                       (analysis_failed_fields en error) w' of
                  Inl e \<Rightarrow> (Rejected e, w')
                | Inr w'' \<Rightarrow> (Returned, w''))))"

section \<open>Notions the properties are stated with\<close>

text \<open>The effects of one invocation: what the final world logs beyond the initial one.\<close>

definition performed :: "world \<Rightarrow> world \<Rightarrow> effect list" where
  "performed w w' = drop (length (effects w)) (effects w')"

fun is_incident_write :: "effect \<Rightarrow> bool" where
  "is_incident_write (IncidentWrite _) = True"
| "is_incident_write _ = False"

fun is_responder_write :: "effect \<Rightarrow> bool" where
  "is_responder_write (ResponderWrite _) = True"
| "is_responder_write _ = False"

fun is_notification :: "effect \<Rightarrow> bool" where
  "is_notification (Notification _) = True"
| "is_notification _ = False"

text \<open>All external calls of an invocation of \<^verbatim>\<open>autoDispatch\<close> succeed.\<close>

definition no_faults :: "env \<Rightarrow> bool" where
  "no_faults en \<longleftrightarrow>
     get_fault en = None \<and> query_fault en = None \<and> pending_write_fault en = None \<and>
     send_fault en = None \<and> incident_write_fault en = None \<and>
     responder_write_fault en = None \<and> failure_write_fault en = None"

definition is_available :: "string \<times> responder \<Rightarrow> bool" where
  "is_available row \<longleftrightarrow> rstatus (snd row) = ''available''"

text \<open>The invariant of a responder record (section 3 of the specification).\<close>

definition responder_invariant :: "responder \<Rightarrow> bool" where
  "responder_invariant r \<longleftrightarrow> (rstatus r = ''available'' \<longrightarrow> currentIncidentId r = None)"

text \<open>The rows with every responder moved to another place.\<close>

definition relocate ::
  "(string \<Rightarrow> geo option) \<Rightarrow> (string \<times> responder) list \<Rightarrow> (string \<times> responder) list" where
  "relocate place rows = map (\<lambda>(k, r). (k, r\<lparr>rlocation := place k\<rparr>)) rows"

text \<open>The row the query of line 56 returns, if any: the first available one in scan order.\<close>

definition first_available :: "(string \<times> responder) list \<Rightarrow> (string \<times> responder) option" where
  "first_available rows = find is_available rows"

text \<open>
  The step of the \<^verbatim>\<open>try\<close> block of \<^verbatim>\<open>autoDispatch\<close> that throws first, and the
  error it throws \<open>e\<close>, read off the environment and the initial world: the read
  (line 40), the query (line 56), the write of line 59 when no responder is available,
  else building the message (line 97) or sending it (line 109) for a responder with a
  token, the incident write (line 116), the responder write (line 122).
\<close>

definition step_throws :: "env \<Rightarrow> string \<Rightarrow> world \<Rightarrow> js_error \<Rightarrow> bool" where
  "step_throws en k w e \<longleftrightarrow>
     (case get_fault en of
        Some e' \<Rightarrow> e' = e
      | None \<Rightarrow>
          (case incidents w k of
             None \<Rightarrow> False
           | Some d \<Rightarrow>
               status d \<noteq> ''dispatched'' \<and> status d \<noteq> ''resolved'' \<and>
               (case query_fault en of
                  Some e' \<Rightarrow> e' = e
                | None \<Rightarrow>
                    (case first_available (responders w) of
                       None \<Rightarrow> pending_write_fault en = Some e
                     | Some (rid, r) \<Rightarrow>
                         if has_fcmToken r \<and> location d = None
                         then e = JsError ''Cannot read properties of undefined (reading latitude)''
                         else if has_fcmToken r \<and> send_fault en \<noteq> None
                         then send_fault en = Some e
                         else if incident_write_fault en \<noteq> None
                         then incident_write_fault en = Some e
                         else responder_write_fault en = Some e))))"

text \<open>
  The TypeError of lines 80-89 for a decoded body, if there is one: a property read of
  \<^verbatim>\<open>null\<close> (the body, the first candidate, the first part) or \<^verbatim>\<open>substring\<close> of a
  text that is missing.
\<close>

fun null_in_parts :: "part option list \<Rightarrow> js_error option" where
  "null_in_parts [] = None"
| "null_in_parts (None # _) = Some (JsError ''Cannot read properties of null (reading text)'')"
| "null_in_parts (Some (Part None) # _) =
     Some (JsError ''Cannot read properties of undefined (reading substring)'')"
| "null_in_parts (Some (Part (Some _)) # _) = None"

fun null_in_candidates :: "candidate option list \<Rightarrow> js_error option" where
  "null_in_candidates [] = None"
| "null_in_candidates (None # _) =
     Some (JsError ''Cannot read properties of null (reading content)'')"
| "null_in_candidates (Some (Candidate None) # _) = None"
| "null_in_candidates (Some (Candidate (Some (Content None))) # _) = None"
| "null_in_candidates (Some (Candidate (Some (Content (Some ps)))) # _) = null_in_parts ps"

fun reads_null :: "gemini_result \<Rightarrow> js_error option" where
  "reads_null JsonNull = Some (JsError ''Cannot read properties of null (reading candidates)'')"
| "reads_null (JsonObject None) = None"
| "reads_null (JsonObject (Some cs)) = null_in_candidates cs"

text \<open>
  The step of the \<^verbatim>\<open>try\<close> block of \<^verbatim>\<open>onNewIncident\<close> that throws, for a trigger
  with a valid incident id and an incident that exists: \<^verbatim>\<open>fetch\<close> rejects,
  \<^verbatim>\<open>response.json()\<close> rejects, a TypeError of lines 80-89, or the store rejects the
  write of line 94.
\<close>

definition analysis_throws :: "analysis_env \<Rightarrow> analysis_trigger \<Rightarrow> js_error \<Rightarrow> bool" where
  "analysis_throws en trig e \<longleftrightarrow>
     (case gemini_fetch en (build_prompt trig (simulated_visionInsights (t_anomalyType trig))) of
        Inl e' \<Rightarrow> e' = e
      | Inr (Inl e') \<Rightarrow> e' = e
      | Inr (Inr result) \<Rightarrow>
          (case reads_null result of
             Some e' \<Rightarrow> e' = e
           | None \<Rightarrow> analyzed_write_fault en = Some e))"

subsection \<open>Example data\<close>

text \<open>
  The example of section 8 of the specification: incident \<^verbatim>\<open>I1\<close>, pending, and
  responder \<^verbatim>\<open>R1\<close>, available; and variations of it.
\<close>

definition incident_I1 :: incident where
  "incident_I1 =
     \<lparr>status = ''pending'', anomalyType = ''crowd_surge'',
      location = Some \<lparr>latitude = ''12.97'', longitude = ''77.59''\<rparr>,
      videoUrl = Some ''gs://videos/I1.mp4'', dispatchedTo = None, routeDuration = None,
      dispatchedAt = None, dispatchAttemptedAt = None, dispatchMessage = None,
      dispatchErrorMessage = None, visionInsights = None, geminiSummary = None,
      processingTimeMs = None, analyzedAt = None, errorMessage = None\<rparr>"

definition responder_R1 :: responder where
  "responder_R1 =
     \<lparr>rstatus = ''available'', rlocation = Some \<lparr>latitude = ''12.90'', longitude = ''77.50''\<rparr>,
      fcmToken = Some ''token-R1'', currentIncidentId = None\<rparr>"

definition responder_R0 :: responder where
  "responder_R0 =
     \<lparr>rstatus = ''en_route'', rlocation = Some \<lparr>latitude = ''12.97'', longitude = ''77.59''\<rparr>,
      fcmToken = Some ''token-R0'', currentIncidentId = Some ''I0''\<rparr>"

definition responder_R2 :: responder where
  "responder_R2 =
     \<lparr>rstatus = ''available'', rlocation = Some \<lparr>latitude = ''12.97'', longitude = ''77.59''\<rparr>,
      fcmToken = None, currentIncidentId = None\<rparr>"

definition world_example :: world where
  "world_example =
     \<lparr>incidents = [''I1'' \<mapsto> incident_I1], responders = [(''R1'', responder_R1)], effects = []\<rparr>"

definition world_fleet :: world where
  "world_fleet =
     \<lparr>incidents = [''I1'' \<mapsto> incident_I1],
      responders = [(''R0'', responder_R0), (''R1'', responder_R1), (''R2'', responder_R2)],
      effects = []\<rparr>"

definition world_no_token :: world where
  "world_no_token =
     \<lparr>incidents = [''I1'' \<mapsto> incident_I1], responders = [(''R2'', responder_R2)], effects = []\<rparr>"

definition world_all_busy :: world where
  "world_all_busy =
     \<lparr>incidents = [''I1'' \<mapsto> incident_I1], responders = [(''R0'', responder_R0)], effects = []\<rparr>"

definition world_dispatched :: world where
  "world_dispatched =
     \<lparr>incidents = [''I1'' \<mapsto> incident_I1\<lparr>status := ''dispatched'', dispatchedTo := Some ''R0''\<rparr>],
      responders = [(''R0'', responder_R0), (''R1'', responder_R1)], effects = []\<rparr>"

definition world_no_location :: world where
  "world_no_location =
     \<lparr>incidents = [''I1'' \<mapsto> incident_I1\<lparr>location := None\<rparr>],
      responders = [(''R1'', responder_R1)], effects = []\<rparr>"

definition env_ok :: env where
  "env_ok =
     \<lparr>get_fault = None, query_fault = None, pending_write_fault = None, send_fault = None,
      incident_write_fault = None, responder_write_fault = None, failure_write_fault = None,
      now = 1000\<rparr>"

definition env_read_down :: env where
  "env_read_down = env_ok\<lparr>get_fault := Some (JsError ''14 UNAVAILABLE'')\<rparr>"

definition env_pending_write_down :: env where
  "env_pending_write_down = env_ok\<lparr>pending_write_fault := Some (JsError ''14 UNAVAILABLE'')\<rparr>"

definition env_responder_write_down :: env where
  "env_responder_write_down = env_ok\<lparr>responder_write_fault := Some (JsError ''14 UNAVAILABLE'')\<rparr>"

definition env_gateway_down :: env where
  "env_gateway_down = env_ok\<lparr>send_fault := Some (JsError ''messaging/server-unavailable'')\<rparr>"

definition env_gateway_and_store_down :: env where
  "env_gateway_and_store_down =
     env_ok\<lparr>send_fault := Some (JsError ''messaging/server-unavailable''),
            failure_write_fault := Some (JsError ''14 UNAVAILABLE'')\<rparr>"

definition env_registry_down :: env where
  "env_registry_down =
     env_ok\<lparr>responder_write_fault := Some (JsError ''14 UNAVAILABLE''),
            failure_write_fault := Some (JsError ''14 UNAVAILABLE'')\<rparr>"

text \<open>The push message for incident \<^verbatim>\<open>I1\<close> and responder \<^verbatim>\<open>R1\<close>.\<close>

definition message_I1_R1 :: fcm_message where
  "message_I1_R1 =
     \<lparr>title = ''New Incident: crowd_surge'',
      body = ''Proceed to location: 12.97, 77.59. Estimated travel: 5 minutes (simulated).'',
      data_incidentId = ''I1'', data_anomalyType = ''crowd_surge'',
      data_videoUrl = Some ''gs://videos/I1.mp4'',
      data_routeDetails = ''Simulated fastest route via Main Street.'',
      data_responderId = ''R1'', token = ''token-R1''\<rparr>"

text \<open>A trigger of \<^verbatim>\<open>onNewIncident\<close> for incident \<^verbatim>\<open>I1\<close>, and environments for it.\<close>

definition trigger_I1 :: analysis_trigger where
  "trigger_I1 =
     \<lparr>t_incidentId = Some ''I1'', t_videoUrl = ''gs://videos/I1.mp4'',
      t_anomalyType = ''crowd_surge'', t_deviceId = ''cam-001'', t_location = ''[12.97,77.59]''\<rparr>"

definition aenv_answer :: "js_error + (js_error + gemini_result) \<Rightarrow> analysis_env" where
  "aenv_answer answer =
     \<lparr>gemini_fetch = (\<lambda>prompt. answer), analyzed_write_fault = None, failed_write_fault = None,
      startTime = 500, endTime = 3000, a_now = 1000\<rparr>"

definition aenv_network_down :: analysis_env where
  "aenv_network_down = aenv_answer (Inl (JsError ''fetch failed''))"

definition aenv_network_and_store_down :: analysis_env where
  "aenv_network_and_store_down =
     (aenv_answer (Inl (JsError ''fetch failed'')))\<lparr>failed_write_fault := Some (JsError ''14 UNAVAILABLE'')\<rparr>"

definition aenv_not_json :: analysis_env where
  "aenv_not_json = aenv_answer (Inr (Inl (JsError ''Unexpected token < in JSON at position 0'')))"

definition aenv_no_candidates :: analysis_env where
  "aenv_no_candidates = aenv_answer (Inr (Inr (JsonObject None)))"

definition aenv_null_body :: analysis_env where
  "aenv_null_body = aenv_answer (Inr (Inr JsonNull))"

definition aenv_write_rejected :: analysis_env where
  "aenv_write_rejected =
     (aenv_answer (Inr (Inr (JsonObject None))))\<lparr>analyzed_write_fault := Some (JsError ''14 UNAVAILABLE'')\<rparr>"

section \<open>Facts about the external calls\<close>

lemma query_first:
  assumes "responders w = pre @ (rid, r) # post"
    and "\<forall>row\<in>set pre. \<not> is_available row"
    and "rstatus r = ''available''"
  shows "query_available None w = Inr [(rid, r)]"
proof -
  have "filter (\<lambda>(k, r). rstatus r = ''available'') pre = []"
    using assms(2) by (auto simp: filter_empty_conv is_available_def)
  then show ?thesis
    using assms(1,3) by (simp add: query_available_def)
qed

lemma query_none:
  assumes "\<forall>row\<in>set (responders w). \<not> is_available row"
  shows "query_available None w = Inr []"
proof -
  have "filter (\<lambda>(k, r). rstatus r = ''available'') (responders w) = []"
    using assms by (auto simp: filter_empty_conv is_available_def)
  then show ?thesis by (simp add: query_available_def)
qed

lemma first_available_exists:
  assumes "\<exists>row\<in>set rows. is_available row"
  shows "\<exists>pre rid r post. rows = pre @ (rid, r) # post \<and>
           (\<forall>row\<in>set pre. \<not> is_available row) \<and> rstatus r = ''available''"
proof -
  from assms obtain pre x post where
    "rows = pre @ x # post" "is_available x" "\<forall>row\<in>set pre. \<not> is_available row"
    using split_list_first_prop [of rows is_available] by blast
  then show ?thesis
    by (cases x) (auto simp: is_available_def)
qed

lemma lookup_doc_append:
  "k \<notin> fst ` set pre \<Longrightarrow> lookup_doc k (pre @ rows) = lookup_doc k rows"
  by (induction pre) auto

lemma update_doc_append:
  "k \<notin> fst ` set pre \<Longrightarrow> update_doc k upd (pre @ rows) = pre @ update_doc k upd rows"
  by (induction pre) auto

text \<open>
  The notification step when the gateway accepts: one message to the responder's token,
  or nothing for a responder without a token.
\<close>

lemma notify_with_token:
  assumes "send_fault en = None" "location d = Some loc" "fcmToken r = Some tok" "tok \<noteq> []"
  shows "\<exists>m. build_message k d rid tok = Inr m \<and> token m = tok \<and>
           data_incidentId m = k \<and> data_responderId m = rid \<and>
           notify_responder en k d rid r w = Inr (w\<lparr>effects := effects w @ [Notification m]\<rparr>)"
  using assms by (simp add: notify_responder_def build_message_def messaging_send_def)

lemma notify_without_token:
  assumes "\<not> has_fcmToken r"
  shows "notify_responder en k d rid r w = Inr w"
  using assms by (auto simp: notify_responder_def has_fcmToken_def split: option.splits)

text \<open>The path of lines 67-128 when nothing throws.\<close>

lemma dispatch_success:
  assumes inc: "incidents w k = Some d" "k \<noteq> []"
    and st: "status d \<noteq> ''dispatched''" "status d \<noteq> ''resolved''"
    and rows: "responders w = pre @ (rid, r) # post" "\<forall>row\<in>set pre. \<not> is_available row"
       "rstatus r = ''available''" "distinct (map fst (responders w))"
    and ok: "get_fault en = None" "query_fault en = None"
       "incident_write_fault en = None" "responder_write_fault en = None"
    and sent: "notify_responder en k d rid r w = Inr (w\<lparr>effects := effects w @ ns\<rparr>)"
  shows "autoDispatch en (Some k) w =
           (Returned,
            w\<lparr>incidents := (incidents w)(k \<mapsto> dispatched_fields en rid d),
              responders := pre @ (rid, en_route_fields k r) # post,
              effects := effects w @ ns @ [IncidentWrite k, ResponderWrite rid]\<rparr>)"
proof -
  have q: "query_available (query_fault en) w = Inr [(rid, r)]"
    using query_first [OF rows(1,2,3)] ok by simp
  have fresh: "rid \<notin> fst ` set pre"
    using rows(1,4) by auto
  have upd: "update_doc rid upd (responders w) = pre @ (rid, upd r) # post" for upd
    using fresh rows(1) by (simp add: update_doc_append)
  have look: "lookup_doc rid (responders w) = Some r"
    using fresh rows(1) by (simp add: lookup_doc_append)
  show ?thesis
    using inc st ok q sent upd look
    by (simp add: autoDispatch_def dispatch_try_def incident_get_def incident_update_def
        responder_update_def)
qed

section \<open>The paths of an invocation\<close>

lemma query_row_present:
  assumes "query_available fault w = Inr ((rid, r) # rest)"
  shows "(rid, r) \<in> set (responders w) \<and> rstatus r = ''available''"
proof -
  from assms have "take 1 (filter (\<lambda>(k, r). rstatus r = ''available'') (responders w)) = (rid, r) # rest"
    by (simp add: query_available_def split: option.splits)
  then have "(rid, r) \<in> set (take 1 (filter (\<lambda>(k, r). rstatus r = ''available'') (responders w)))"
    by simp
  then have "(rid, r) \<in> set (filter (\<lambda>(k, r). rstatus r = ''available'') (responders w))"
    by (rule in_set_takeD)
  then show ?thesis by simp
qed

lemma lookup_doc_present: "(k, r) \<in> set rows \<Longrightarrow> lookup_doc k rows \<noteq> None"
  by (induction rows) auto

lemma notify_responder_shape:
  assumes "notify_responder en k d rid r w = Inr w1"
  shows "\<exists>ns. w1 = w\<lparr>effects := effects w @ ns\<rparr> \<and>
           (ns = [] \<or> (\<exists>m. ns = [Notification m] \<and> fcmToken r = Some (token m) \<and> data_responderId m = rid))"
proof (cases "has_fcmToken r")
  case False
  from assms notify_without_token [OF False, of en k d rid w] have "w1 = w\<lparr>effects := effects w @ []\<rparr>"
    by simp
  then show ?thesis by blast
next
  case True
  then obtain tok where tok: "fcmToken r = Some tok" "tok \<noteq> []"
    by (auto simp: has_fcmToken_def split: option.splits)
  with assms obtain m where "build_message k d rid tok = Inr m"
    "w1 = w\<lparr>effects := effects w @ [Notification m]\<rparr>"
    by (auto simp: notify_responder_def messaging_send_def split: sum.splits option.splits)
  moreover from this(1) have "token m = tok" "data_responderId m = rid"
    by (auto simp: build_message_def split: option.splits)
  ultimately show ?thesis using tok(1) by blast
qed

lemma dispatch_try_cases:
  assumes "dispatch_try en k w = (res, w1)"
  obtains
    (unchanged) "w1 = w"
      "res \<noteq> None \<or> (get_fault en = None \<and> (incidents w k = None \<or>
         (\<exists>d. incidents w k = Some d \<and> (status d = ''dispatched'' \<or> status d = ''resolved''))))"
  | (pending) d where "res = None" "incidents w k = Some d"
      "w1 = w\<lparr>incidents := (incidents w)(k \<mapsto> pending_dispatch_fields en d),
              effects := effects w @ [IncidentWrite k]\<rparr>"
  | (write1_failed) d ns where "incidents w k = Some d"
      "ns = [] \<or> (\<exists>m. ns = [Notification m])"
      "res = incident_write_fault en" "res \<noteq> None" "w1 = w\<lparr>effects := effects w @ ns\<rparr>"
  | (write2_failed) d rid r ns where "incidents w k = Some d" "(rid, r) \<in> set (responders w)"
      "rstatus r = ''available''" "ns = [] \<or> (\<exists>m. ns = [Notification m])"
      "res = responder_write_fault en" "res \<noteq> None"
      "w1 = w\<lparr>incidents := (incidents w)(k \<mapsto> dispatched_fields en rid d),
              effects := effects w @ ns @ [IncidentWrite k]\<rparr>"
  | (assigned) d rid r ns where "incidents w k = Some d" "(rid, r) \<in> set (responders w)"
      "rstatus r = ''available''" "ns = [] \<or> (\<exists>m. ns = [Notification m])" "res = None"
      "w1 = w\<lparr>incidents := (incidents w)(k \<mapsto> dispatched_fields en rid d),
              responders := update_doc rid (en_route_fields k) (responders w),
              effects := effects w @ ns @ [IncidentWrite k, ResponderWrite rid]\<rparr>"
proof (cases "incident_get (get_fault en) k w")
  case (Inl e)
  with assms have "w1 = w" "res \<noteq> None" by (auto simp: dispatch_try_def)
  then show ?thesis by (intro unchanged) simp_all
next
  case (Inr snap)
  then have g: "get_fault en = None" "snap = incidents w k"
    by (simp_all add: incident_get_def split: option.splits)
  show ?thesis
  proof (cases snap)
    case None
    with Inr assms have "w1 = w" by (simp add: dispatch_try_def)
    with g None show ?thesis by (intro unchanged) simp_all
  next
    case (Some d)
    with Inr have d: "incidents w k = Some d"
      by (simp add: incident_get_def split: option.splits)
    show ?thesis
    proof (cases "status d = ''dispatched'' \<or> status d = ''resolved''")
      case True
      with Inr Some assms have "w1 = w" by (simp add: dispatch_try_def)
      with g d True show ?thesis by (intro unchanged) simp_all
    next
      case False
      show ?thesis
      proof (cases "query_available (query_fault en) w")
        case (Inl e)
        with Inr Some False assms have "w1 = w" "res \<noteq> None" by (auto simp: dispatch_try_def)
        then show ?thesis by (intro unchanged) simp_all
      next
        case q: (Inr rows)
        show ?thesis
        proof (cases rows)
          case Nil
          with Inr Some False q assms
          have r: "(case incident_update (pending_write_fault en) k (pending_dispatch_fields en) w of
                   Inl e \<Rightarrow> (Some e, w) | Inr w1 \<Rightarrow> (None, w1)) = (res, w1)"
            by (simp add: dispatch_try_def)
          show ?thesis
          proof (cases "incident_update (pending_write_fault en) k (pending_dispatch_fields en) w")
            case (Inl e)
            with r have "w1 = w" "res \<noteq> None" by auto
            then show ?thesis by (intro unchanged) simp_all
          next
            case (Inr wp)
            with r have "res = None" "w1 = wp" by simp_all
            moreover from Inr d have
              "wp = w\<lparr>incidents := (incidents w)(k \<mapsto> pending_dispatch_fields en d),
                       effects := effects w @ [IncidentWrite k]\<rparr>"
              by (simp add: incident_update_def split: option.splits)
            ultimately show ?thesis using d by (intro pending [of d]) simp_all
          qed
        next
          case (Cons row rest)
          obtain rid r where row: "row = (rid, r)" by (cases row)
          from q Cons row have present: "(rid, r) \<in> set (responders w)" "rstatus r = ''available''"
            using query_row_present by blast+
          show ?thesis
          proof (cases "notify_responder en k d rid r w")
            case (Inl e)
            with Inr Some False q Cons row assms have "w1 = w" "res \<noteq> None"
              by (auto simp: dispatch_try_def)
            then show ?thesis by (intro unchanged) simp_all
          next
            case n: (Inr wn)
            from notify_responder_shape [OF n] obtain ns where
              ns: "wn = w\<lparr>effects := effects w @ ns\<rparr>" "ns = [] \<or> (\<exists>m. ns = [Notification m])"
              by blast
            have look: "lookup_doc rid (responders w) \<noteq> None"
              using lookup_doc_present [OF present(1)] .
            from Inr Some False q Cons row n assms
            have r: "(case incident_update (incident_write_fault en) k (dispatched_fields en rid) wn of
                     Inl e \<Rightarrow> (Some e, wn)
                   | Inr w2 \<Rightarrow>
                       (case responder_update (responder_write_fault en) rid (en_route_fields k) w2 of
                          Inl e \<Rightarrow> (Some e, w2)
                        | Inr w3 \<Rightarrow> (None, w3))) = (res, w1)"
              by (simp add: dispatch_try_def)
            show ?thesis
            proof (cases "incident_write_fault en")
              case (Some e)
              with r have "res = Some e" "w1 = wn"
                by (simp_all add: incident_update_def)
              with Some have "res = incident_write_fault en" "res \<noteq> None" "w1 = wn"
                by simp_all
              with d ns show ?thesis by (intro write1_failed [of d ns]) simp_all
            next
              case None
              let ?w2 = "w\<lparr>incidents := (incidents w)(k \<mapsto> dispatched_fields en rid d),
                            effects := effects w @ ns @ [IncidentWrite k]\<rparr>"
              from None d ns(1) have w2: "incident_update (incident_write_fault en) k
                  (dispatched_fields en rid) wn = Inr ?w2"
                by (simp add: incident_update_def)
              show ?thesis
              proof (cases "responder_write_fault en")
                case (Some e)
                with r w2 have "res = Some e" "w1 = ?w2"
                  by (simp_all add: responder_update_def)
                with Some have "res = responder_write_fault en" "res \<noteq> None" "w1 = ?w2"
                  by simp_all
                with d present ns(2) show ?thesis
                  by (intro write2_failed [of d rid r ns]) simp_all
              next
                case None
                with r w2 look have "res = None"
                  "w1 = w\<lparr>incidents := (incidents w)(k \<mapsto> dispatched_fields en rid d),
                          responders := update_doc rid (en_route_fields k) (responders w),
                          effects := effects w @ ns @ [IncidentWrite k, ResponderWrite rid]\<rparr>"
                  by (auto simp: responder_update_def split: option.splits)
                with d present ns(2) show ?thesis
                  by (intro assigned [of d rid r ns]) simp_all
              qed
            qed
          qed
        qed
      qed
    qed
  qed
qed

lemma autoDispatch_cases:
  assumes "autoDispatch en (Some k) w = (out, w')" "k \<noteq> []"
  obtains
    (untouched) ns where "ns = [] \<or> (\<exists>m. ns = [Notification m])"
      "w' = w\<lparr>effects := effects w @ ns\<rparr>"
      "ns = [] \<or> (out \<noteq> Returned \<and> incident_write_fault en \<noteq> None)"
      "(out = Returned \<and> get_fault en = None \<and> (incidents w k = None \<or>
          (\<exists>d. incidents w k = Some d \<and> (status d = ''dispatched'' \<or> status d = ''resolved''))))
       \<or> (out \<noteq> Returned \<and> (failure_write_fault en \<noteq> None \<or> incidents w k = None))"
  | (pending) d where "out = Returned" "incidents w k = Some d"
      "w' = w\<lparr>incidents := (incidents w)(k \<mapsto> pending_dispatch_fields en d),
              effects := effects w @ [IncidentWrite k]\<rparr>"
  | (failed) d e ns where "ns = [] \<or> (\<exists>m. ns = [Notification m])"
      "out = Returned" "incidents w k = Some d" "failure_write_fault en = None"
      "fst (dispatch_try en k w) = Some e"
      "w' = w\<lparr>incidents := (incidents w)(k \<mapsto> dispatch_failed_fields en e d),
              effects := effects w @ ns @ [IncidentWrite k]\<rparr>"
  | (half) d rid r ns where "ns = [] \<or> (\<exists>m. ns = [Notification m])"
      "incidents w k = Some d" "(rid, r) \<in> set (responders w)" "rstatus r = ''available''"
      "out \<noteq> Returned" "responder_write_fault en \<noteq> None" "failure_write_fault en \<noteq> None"
      "w' = w\<lparr>incidents := (incidents w)(k \<mapsto> dispatched_fields en rid d),
              effects := effects w @ ns @ [IncidentWrite k]\<rparr>"
  | (reverted) d rid r ns e where "ns = [] \<or> (\<exists>m. ns = [Notification m])"
      "incidents w k = Some d" "(rid, r) \<in> set (responders w)" "rstatus r = ''available''"
      "out = Returned" "responder_write_fault en = Some e" "failure_write_fault en = None"
      "fst (dispatch_try en k w) = Some e"
      "w' = w\<lparr>incidents := (incidents w)
                 (k \<mapsto> dispatch_failed_fields en e (dispatched_fields en rid d)),
              effects := effects w @ ns @ [IncidentWrite k, IncidentWrite k]\<rparr>"
  | (assigned) d rid r ns where "ns = [] \<or> (\<exists>m. ns = [Notification m])"
      "incidents w k = Some d" "(rid, r) \<in> set (responders w)" "rstatus r = ''available''"
      "out = Returned"
      "w' = w\<lparr>incidents := (incidents w)(k \<mapsto> dispatched_fields en rid d),
              responders := update_doc rid (en_route_fields k) (responders w),
              effects := effects w @ ns @ [IncidentWrite k, ResponderWrite rid]\<rparr>"
proof -
  obtain res w1 where t: "dispatch_try en k w = (res, w1)"
    by (cases "dispatch_try en k w")
  have ad: "(out, w') =
      (case res of
         None \<Rightarrow> (Returned, w1)
       | Some error \<Rightarrow>
           (case incident_update (failure_write_fault en) k (dispatch_failed_fields en error) w1 of
              Inl e \<Rightarrow> (Rejected e, w1)
            | Inr w'' \<Rightarrow> (Returned, w'')))"
    using assms t by (simp add: autoDispatch_def)
  have rejected: "out \<noteq> Returned \<and> w' = w1"
    if "res = Some e" "failure_write_fault en \<noteq> None \<or> incidents w1 k = None" for e
    using ad that by (auto simp: incident_update_def split: option.splits)
  have recorded: "out = Returned \<and>
          w' = w1\<lparr>incidents := (incidents w1)(k \<mapsto> dispatch_failed_fields en e d1),
                  effects := effects w1 @ [IncidentWrite k]\<rparr>"
    if "res = Some e" "failure_write_fault en = None" "incidents w1 k = Some d1" for e d1
    using ad that by (simp add: incident_update_def)
  have returned: "out = Returned \<and> w' = w1" if "res = None"
    using ad that by simp
  from t show ?thesis
  proof (cases rule: dispatch_try_cases)
    case unchanged
    show ?thesis
    proof (cases res)
      case None
      with returned unchanged show ?thesis
        by (intro untouched [of "[]"]) auto
    next
      case (Some e)
      show ?thesis
      proof (cases "failure_write_fault en \<noteq> None \<or> incidents w1 k = None")
        case True
        from rejected [OF Some True] unchanged True show ?thesis
          by (intro untouched [of "[]"]) auto
      next
        case False
        then obtain d1 where d1: "failure_write_fault en = None" "incidents w1 k = Some d1"
          by auto
        from recorded [OF Some d1] unchanged d1 Some t show ?thesis
          by (intro failed [of "[]" d1 e]) simp_all
      qed
    qed
  next
    case (pending d)
    with returned show ?thesis
      by (intro that(2) [of d]) simp_all
  next
    case (write1_failed d ns)
    then obtain e where e: "res = Some e" by auto
    have d1: "incidents w1 k = Some d"
      using write1_failed by simp
    show ?thesis
    proof (cases "failure_write_fault en")
      case (Some e')
      then have "failure_write_fault en \<noteq> None \<or> incidents w1 k = None" by simp
      from rejected [OF e this] write1_failed Some show ?thesis
        by (intro untouched [of ns]) auto
    next
      case None
      from recorded [OF e None d1] write1_failed None e t show ?thesis
        by (intro failed [of ns d e]) simp_all
    qed
  next
    case (write2_failed d rid r ns)
    then obtain e where e: "res = Some e" by auto
    have d1: "incidents w1 k = Some (dispatched_fields en rid d)"
      using write2_failed by simp
    show ?thesis
    proof (cases "failure_write_fault en")
      case (Some e')
      then have "failure_write_fault en \<noteq> None \<or> incidents w1 k = None" by simp
      from rejected [OF e this] write2_failed Some show ?thesis
        by (intro half [of ns d rid r]) simp_all
    next
      case None
      from recorded [OF e None d1] write2_failed None e t show ?thesis
        by (intro reverted [of ns d rid r e]) simp_all
    qed
  next
    case (assigned d rid r ns)
    with returned show ?thesis
      by (intro that(6) [of ns d rid r]) simp_all
  qed
qed

lemma update_doc_length: "length (update_doc k upd rows) = length rows"
  by (induction rows) auto

lemma update_doc_nth:
  assumes "i < length rows"
  shows "fst (update_doc k upd rows ! i) = fst (rows ! i) \<and>
         (snd (update_doc k upd rows ! i) = snd (rows ! i) \<or>
          snd (update_doc k upd rows ! i) = upd (snd (rows ! i)))"
  using assms
proof (induction rows arbitrary: i)
  case Nil
  then show ?case by simp
next
  case (Cons row rows)
  obtain k' r where row: "row = (k', r)" by (cases row)
  show ?case
  proof (cases i)
    case 0
    with row show ?thesis by simp
  next
    case (Suc j)
    with Cons row show ?thesis by simp
  qed
qed

lemma lookup_update_doc:
  "lookup_doc k (update_doc k upd rows) = map_option upd (lookup_doc k rows)"
  by (induction rows) auto

lemma autoDispatch_responders:
  "responders (snd (autoDispatch en p w)) = responders w \<or>
   (\<exists>k rid. p = Some k \<and>
      responders (snd (autoDispatch en p w)) = update_doc rid (en_route_fields k) (responders w))"
proof (cases p)
  case None
  then show ?thesis by (simp add: autoDispatch_def)
next
  case (Some k)
  show ?thesis
  proof (cases "k = []")
    case True
    with Some show ?thesis by (simp add: autoDispatch_def)
  next
    case False
    obtain out w' where r: "autoDispatch en (Some k) w = (out, w')"
      by (cases "autoDispatch en (Some k) w")
    from r False show ?thesis
    proof (cases rule: autoDispatch_cases)
      case (assigned d rid r ns)
      with r Some have "responders (snd (autoDispatch en p w))
          = update_doc rid (en_route_fields k) (responders w)"
        by simp
      with Some show ?thesis by blast
    qed (use r Some in simp_all)
  qed
qed

lemma performed_append [simp]:
  "performed w (w\<lparr>effects := effects w @ es\<rparr>) = es"
  "performed w (w\<lparr>incidents := i, effects := effects w @ es\<rparr>) = es"
  "performed w (w\<lparr>incidents := i, responders := rs, effects := effects w @ es\<rparr>) = es"
  "performed w w = []"
  by (simp_all add: performed_def)

lemma autoDispatch_skip:
  "autoDispatch en None w = (Returned, w)" "autoDispatch en (Some []) w = (Returned, w)"
  by (simp_all add: autoDispatch_def)

lemma autoDispatch_effects:
  "\<exists>ns ws. performed w (snd (autoDispatch en p w)) = ns @ ws \<and>
     (ns = [] \<or> (\<exists>m. ns = [Notification m])) \<and>
     (ws = [] \<or> (\<exists>k. p = Some k \<and>
        (ws = [IncidentWrite k] \<or> ws = [IncidentWrite k, IncidentWrite k] \<or>
         (\<exists>rid. ws = [IncidentWrite k, ResponderWrite rid]))))"
proof (cases p)
  case None
  then show ?thesis by (simp add: autoDispatch_skip)
next
  case (Some k)
  show ?thesis
  proof (cases "k = []")
    case True
    with Some show ?thesis by (simp add: autoDispatch_skip)
  next
    case False
    obtain out w' where r: "autoDispatch en (Some k) w = (out, w')"
      by (cases "autoDispatch en (Some k) w")
    from r False show ?thesis
    proof (cases rule: autoDispatch_cases)
      case (untouched ns)
      with r Some show ?thesis
        by (intro exI [of _ ns] exI [of _ "[]"]) simp
    next
      case (pending d)
      with r Some show ?thesis
        by (intro exI [of _ "[]"] exI [of _ "[IncidentWrite k]"]) simp
    next
      case (failed d e ns)
      with r Some show ?thesis
        by (intro exI [of _ ns] exI [of _ "[IncidentWrite k]"]) simp
    next
      case (half d rid r ns)
      with r Some show ?thesis
        by (intro exI [of _ ns] exI [of _ "[IncidentWrite k]"]) simp
    next
      case (reverted d rid r ns e)
      with r Some show ?thesis
        by (intro exI [of _ ns] exI [of _ "[IncidentWrite k, IncidentWrite k]"]) simp
    next
      case (assigned d rid r ns)
      with r Some show ?thesis
        by (intro exI [of _ ns] exI [of _ "[IncidentWrite k, ResponderWrite rid]"]) simp
    qed
  qed
qed

lemma one_incident_write:
  assumes "k \<noteq> []" "incidents w k = Some d"
    and "status d \<noteq> ''dispatched''" "status d \<noteq> ''resolved''" "no_faults en"
  shows "length (filter is_incident_write (performed w (snd (autoDispatch en (Some k) w)))) = 1"
proof -
  obtain out w' where r: "autoDispatch en (Some k) w = (out, w')"
    by (cases "autoDispatch en (Some k) w")
  have ok: "get_fault en = None" "failure_write_fault en = None" "responder_write_fault en = None"
    using assms(5) by (simp_all add: no_faults_def)
  from r assms(1) show ?thesis
  proof (cases rule: autoDispatch_cases)
    case (untouched ns)
    with assms(2-4) ok show ?thesis by auto
  next
    case (pending d)
    with r show ?thesis by simp
  next
    case (failed d e ns)
    with r show ?thesis by auto
  next
    case (half d rid r ns)
    with ok show ?thesis by simp
  next
    case (reverted d rid r ns e)
    with ok show ?thesis by simp
  next
    case (assigned d rid r ns)
    with r show ?thesis by auto
  qed
qed

lemma dispatch_try_keeps_incident:
  assumes "dispatch_try en k w = (res, w1)" "incidents w k = Some d"
  shows "\<exists>d1. incidents w1 k = Some d1"
  using assms(1)
  by (cases rule: dispatch_try_cases) (use assms(2) in simp_all)

subsection \<open>Runs on the example data\<close>

lemmas example_defs =
  world_example_def world_fleet_def world_no_token_def world_all_busy_def world_dispatched_def
  incident_I1_def responder_R0_def responder_R1_def responder_R2_def
  env_ok_def env_gateway_down_def env_gateway_and_store_down_def env_registry_down_def

lemmas call_defs =
  autoDispatch_def dispatch_try_def incident_get_def query_available_def notify_responder_def
  build_message_def messaging_send_def incident_update_def responder_update_def
  simulatedRouteDuration_def simulatedRouteDetails_def

text \<open>The example of section 8 of the specification, with the notification it sends.\<close>

lemma run_example:
  "autoDispatch env_ok (Some ''I1'') world_example =
     (Returned,
      \<lparr>incidents = [''I1'' \<mapsto> dispatched_fields env_ok ''R1'' incident_I1],
       responders = [(''R1'', en_route_fields ''I1'' responder_R1)],
       effects = [Notification message_I1_R1, IncidentWrite ''I1'', ResponderWrite ''R1'']\<rparr>)"
  by (simp add: call_defs example_defs message_I1_R1_def)

lemma run_gateway_down:
  "dispatch_try env_gateway_down ''I1'' world_example
     = (Some (JsError ''messaging/server-unavailable''), world_example)"
  by (simp add: call_defs example_defs)

lemma run_gateway_and_store_down:
  "dispatch_try env_gateway_and_store_down ''I1'' world_example
     = (Some (JsError ''messaging/server-unavailable''), world_example)"
  "autoDispatch env_gateway_and_store_down (Some ''I1'') world_example
     = (Rejected (JsError ''14 UNAVAILABLE''), world_example)"
  by (simp_all add: call_defs example_defs)

lemma run_registry_down:
  "autoDispatch env_registry_down (Some ''I1'') world_example =
     (Rejected (JsError ''14 UNAVAILABLE''),
      \<lparr>incidents = [''I1'' \<mapsto> dispatched_fields env_registry_down ''R1'' incident_I1],
       responders = [(''R1'', responder_R1)],
       effects = [Notification message_I1_R1, IncidentWrite ''I1'']\<rparr>)"
  by (simp add: call_defs example_defs message_I1_R1_def)

lemma run_fleet:
  "autoDispatch env_ok (Some ''I1'') world_fleet =
     (Returned,
      \<lparr>incidents = [''I1'' \<mapsto> dispatched_fields env_ok ''R1'' incident_I1],
       responders = [(''R0'', responder_R0), (''R1'', en_route_fields ''I1'' responder_R1),
                     (''R2'', responder_R2)],
       effects = [Notification message_I1_R1, IncidentWrite ''I1'', ResponderWrite ''R1'']\<rparr>)"
  by (simp add: call_defs example_defs message_I1_R1_def)

section \<open>Successful dispatch\<close>

text \<open>
  Claim C1, as the code has it. When the incident exists (with its location), its status
  is neither \<^verbatim>\<open>dispatched\<close> nor \<^verbatim>\<open>resolved\<close>, at least one responder is
  \<^verbatim>\<open>available\<close> and all external calls succeed, the invocation returns normally and
  exactly one row of the registry changes: an available responder becomes
  \<^verbatim>\<open>en_route\<close> with \<^verbatim>\<open>currentIncidentId\<close> the incident's id. The incident becomes
  \<^verbatim>\<open>dispatched\<close> with \<^verbatim>\<open>dispatchedTo\<close> that responder's id and the simulated route
  duration recorded. One notification goes to that responder's token when the responder
  has a token; a responder without a token gets none.
\<close>

theorem dispatch_assigns_one_responder:
  assumes "incidents w k = Some d" "k \<noteq> []"
    and "status d \<noteq> ''dispatched''" "status d \<noteq> ''resolved''"
    and "location d \<noteq> None"
    and "\<exists>row\<in>set (responders w). is_available row"
    and "distinct (map fst (responders w))"
    and "no_faults en"
  shows "\<exists>pre rid r post ns.
           responders w = pre @ (rid, r) # post \<and> rstatus r = ''available'' \<and>
           autoDispatch en (Some k) w =
             (Returned,
              w\<lparr>incidents := (incidents w)
                   (k \<mapsto> d\<lparr>status := ''dispatched'', dispatchedTo := Some rid,
                           routeDuration := Some simulatedRouteDuration,
                           dispatchedAt := Some (now en)\<rparr>),
                responders :=
                  pre @ (rid, r\<lparr>rstatus := ''en_route'', currentIncidentId := Some k\<rparr>) # post,
                effects := effects w @ ns @ [IncidentWrite k, ResponderWrite rid]\<rparr>) \<and>
           (if has_fcmToken r
            then \<exists>m. ns = [Notification m] \<and> fcmToken r = Some (token m) \<and>
                   data_incidentId m = k \<and> data_responderId m = rid
            else ns = [])"
proof -
  from assms(6) obtain pre rid r post where
    rows: "responders w = pre @ (rid, r) # post" "\<forall>row\<in>set pre. \<not> is_available row"
      "rstatus r = ''available''"
    using first_available_exists by blast
  from assms(5) obtain loc where loc: "location d = Some loc"
    by auto
  have ok: "get_fault en = None" "query_fault en = None" "send_fault en = None"
    "incident_write_fault en = None" "responder_write_fault en = None"
    using assms(8) by (simp_all add: no_faults_def)
  show ?thesis
  proof (cases "has_fcmToken r")
    case True
    then obtain tok where tok: "fcmToken r = Some tok" "tok \<noteq> []"
      by (auto simp: has_fcmToken_def split: option.splits)
    from notify_with_token [OF ok(3) loc tok, of k rid w] obtain m where
      m: "token m = tok" "data_incidentId m = k" "data_responderId m = rid"
        "notify_responder en k d rid r w = Inr (w\<lparr>effects := effects w @ [Notification m]\<rparr>)"
      by blast
    from dispatch_success [OF assms(1-4) rows assms(7) ok(1,2,4,5) m(4)]
      rows(1,3) True tok(1) m(1-3)
    show ?thesis
      by (intro exI [of _ pre] exI [of _ rid] exI [of _ r] exI [of _ post]
          exI [of _ "[Notification m]"])
        (simp add: dispatched_fields_def en_route_fields_def)
  next
    case False
    have "notify_responder en k d rid r w = Inr (w\<lparr>effects := effects w @ []\<rparr>)"
      using notify_without_token [OF False] by simp
    from dispatch_success [OF assms(1-4) rows assms(7) ok(1,2,4,5) this] rows(1,3) False
    show ?thesis
      by (intro exI [of _ pre] exI [of _ rid] exI [of _ r] exI [of _ post] exI [of _ "[]"])
        (simp add: dispatched_fields_def en_route_fields_def)
  qed
qed

theorem dispatch_assigns_one_responder_witness:
  "incidents world_example ''I1'' = Some incident_I1 \<and> ''I1'' \<noteq> [] \<and>
   status incident_I1 \<noteq> ''dispatched'' \<and> status incident_I1 \<noteq> ''resolved'' \<and>
   location incident_I1 \<noteq> None \<and>
   (\<exists>row\<in>set (responders world_example). is_available row) \<and>
   distinct (map fst (responders world_example)) \<and> no_faults env_ok \<and>
   fst (autoDispatch env_ok (Some ''I1'') world_example) = Returned \<and>
   map_option status (incidents (snd (autoDispatch env_ok (Some ''I1'') world_example)) ''I1'')
     = Some ''dispatched''"
proof -
  have h: "incidents world_example ''I1'' = Some incident_I1" "''I1'' \<noteq> []"
    "status incident_I1 \<noteq> ''dispatched''" "status incident_I1 \<noteq> ''resolved''"
    "location incident_I1 \<noteq> None"
    "\<exists>row\<in>set (responders world_example). is_available row"
    "distinct (map fst (responders world_example))" "no_faults env_ok"
    by (simp_all add: world_example_def incident_I1_def responder_R1_def is_available_def
        no_faults_def env_ok_def)
  from dispatch_assigns_one_responder [OF h] obtain w' d' where
    "autoDispatch env_ok (Some ''I1'') world_example = (Returned, w')"
    "incidents w' ''I1'' = Some d'" "status d' = ''dispatched''"
    by fastforce
  with h show ?thesis by simp
qed

text \<open>
  The claim as written promises a notification on every successful dispatch. With the
  responder \<^verbatim>\<open>R2\<close>, available and without a token, every external call succeeds and
  the dispatch completes, and no notification is among the effects.
\<close>

theorem dispatch_notification_counterexample:
  "incidents world_no_token ''I1'' = Some incident_I1 \<and> status incident_I1 = ''pending'' \<and>
   responders world_no_token = [(''R2'', responder_R2)] \<and> rstatus responder_R2 = ''available'' \<and>
   no_faults env_ok \<and>
   fst (autoDispatch env_ok (Some ''I1'') world_no_token) = Returned \<and>
   performed world_no_token (snd (autoDispatch env_ok (Some ''I1'') world_no_token))
     = [IncidentWrite ''I1'', ResponderWrite ''R2'']"
  by (simp add: autoDispatch_def dispatch_try_def incident_get_def query_available_def
      notify_responder_def incident_update_def responder_update_def performed_def
      world_no_token_def incident_I1_def responder_R2_def env_ok_def no_faults_def)



section \<open>The guard on handled incidents\<close>

text \<open>
  Claim C2, as the code has it. For an incident that the read of line 40 returns with
  status \<^verbatim>\<open>dispatched\<close> or \<^verbatim>\<open>resolved\<close>, the invocation returns and the world
  is unchanged: no write to the incident store, no write to the responder registry, no
  notification.
\<close>

theorem handled_incident_is_noop:
  assumes "incidents w k = Some d"
    and "status d = ''dispatched'' \<or> status d = ''resolved''"
    and "get_fault en = None"
  shows "autoDispatch en (Some k) w = (Returned, w) \<and>
         performed w (snd (autoDispatch en (Some k) w)) = []"
proof -
  have "dispatch_try en k w = (None, w)"
    using assms by (auto simp: dispatch_try_def incident_get_def)
  then have "autoDispatch en (Some k) w = (Returned, w)"
    by (simp add: autoDispatch_def)
  then show ?thesis
    by (simp add: performed_def)
qed

theorem handled_incident_is_noop_witness:
  "incidents world_dispatched ''I1''
     = Some (incident_I1\<lparr>status := ''dispatched'', dispatchedTo := Some ''R0''\<rparr>) \<and>
   status (incident_I1\<lparr>status := ''dispatched'', dispatchedTo := Some ''R0''\<rparr>) = ''dispatched'' \<and>
   get_fault env_ok = None \<and>
   autoDispatch env_ok (Some ''I1'') world_dispatched = (Returned, world_dispatched) \<and>
   performed world_dispatched (snd (autoDispatch env_ok (Some ''I1'') world_dispatched)) = []"
proof -
  have h: "incidents world_dispatched ''I1''
       = Some (incident_I1\<lparr>status := ''dispatched'', dispatchedTo := Some ''R0''\<rparr>)"
    "status (incident_I1\<lparr>status := ''dispatched'', dispatchedTo := Some ''R0''\<rparr>) = ''dispatched''
     \<or> status (incident_I1\<lparr>status := ''dispatched'', dispatchedTo := Some ''R0''\<rparr>) = ''resolved''"
    "get_fault env_ok = None"
    by (simp_all add: world_dispatched_def env_ok_def)
  from handled_incident_is_noop [OF h] h(1,3) show ?thesis
    by (simp add: performed_def)
qed

text \<open>
  The claim as written has no write for every incident already \<^verbatim>\<open>dispatched\<close>.
  When the read of line 40 rejects, the handler never sees the status: the
  \<^verbatim>\<open>catch\<close> block writes \<^verbatim>\<open>dispatch_failed\<close> over the \<^verbatim>\<open>dispatched\<close>
  incident.
\<close>

theorem handled_incident_counterexample:
  "map_option status (incidents world_dispatched ''I1'') = Some ''dispatched'' \<and>
   get_fault env_read_down = Some (JsError ''14 UNAVAILABLE'') \<and>
   fst (autoDispatch env_read_down (Some ''I1'') world_dispatched) = Returned \<and>
   map_option status (incidents (snd (autoDispatch env_read_down (Some ''I1'') world_dispatched)) ''I1'')
     = Some ''dispatch_failed'' \<and>
   performed world_dispatched (snd (autoDispatch env_read_down (Some ''I1'') world_dispatched))
     = [IncidentWrite ''I1'']"
  by (simp add: call_defs dispatch_failed_fields_def performed_def world_dispatched_def
      incident_I1_def env_read_down_def env_ok_def)

section \<open>No available responder\<close>

text \<open>
  Claim C3, as the code has it. When the incident exists, is neither
  \<^verbatim>\<open>dispatched\<close> nor \<^verbatim>\<open>resolved\<close>, and no responder is \<^verbatim>\<open>available\<close>, no
  responder record is changed, whichever calls fail. When moreover the read, the query
  and the write of line 59 succeed, the invocation returns normally, the incident gets
  status \<^verbatim>\<open>pending_dispatch\<close> with the diagnostic message, and the only effect is
  that one incident write.
\<close>

theorem no_capacity_marks_pending:
  assumes "incidents w k = Some d" "k \<noteq> []"
    and "status d \<noteq> ''dispatched''" "status d \<noteq> ''resolved''"
    and "\<forall>row\<in>set (responders w). \<not> is_available row"
  shows "responders (snd (autoDispatch en (Some k) w)) = responders w \<and>
         (get_fault en = None \<and> query_fault en = None \<and> pending_write_fault en = None \<longrightarrow>
            autoDispatch en (Some k) w =
              (Returned,
               w\<lparr>incidents := (incidents w)
                    (k \<mapsto> d\<lparr>status := ''pending_dispatch'',
                            dispatchAttemptedAt := Some (now en),
                            dispatchMessage := Some ''No available responders.''\<rparr>),
                 effects := effects w @ [IncidentWrite k]\<rparr>))"
proof -
  obtain out w' where r: "autoDispatch en (Some k) w = (out, w')"
    by (cases "autoDispatch en (Some k) w")
  from r assms(2) have "responders w' = responders w"
  proof (cases rule: autoDispatch_cases)
    case (assigned d0 rid r0 ns)
    with assms(5) show ?thesis by (auto simp: is_available_def)
  qed simp_all
  with r have frame: "responders (snd (autoDispatch en (Some k) w)) = responders w"
    by simp
  have path: "autoDispatch en (Some k) w =
           (Returned,
            w\<lparr>incidents := (incidents w)
                    (k \<mapsto> d\<lparr>status := ''pending_dispatch'',
                            dispatchAttemptedAt := Some (now en),
                            dispatchMessage := Some ''No available responders.''\<rparr>),
              effects := effects w @ [IncidentWrite k]\<rparr>)"
    if ok: "get_fault en = None \<and> query_fault en = None \<and> pending_write_fault en = None"
  proof -
    have "query_available (query_fault en) w = Inr []"
      using query_none [OF assms(5)] ok by simp
    then show ?thesis
      using assms(1-4) ok
      by (simp add: autoDispatch_def dispatch_try_def incident_get_def incident_update_def
          pending_dispatch_fields_def)
  qed
  from frame path show ?thesis by blast
qed

theorem no_capacity_marks_pending_witness:
  "incidents world_all_busy ''I1'' = Some incident_I1 \<and> ''I1'' \<noteq> [] \<and>
   status incident_I1 \<noteq> ''dispatched'' \<and> status incident_I1 \<noteq> ''resolved'' \<and>
   responders world_all_busy = [(''R0'', responder_R0)] \<and> \<not> is_available (''R0'', responder_R0) \<and>
   get_fault env_ok = None \<and> query_fault env_ok = None \<and> pending_write_fault env_ok = None \<and>
   autoDispatch env_ok (Some ''I1'') world_all_busy =
     (Returned,
      world_all_busy
       \<lparr>incidents := (incidents world_all_busy)
          (''I1'' \<mapsto> incident_I1\<lparr>status := ''pending_dispatch'',
                         dispatchAttemptedAt := Some (now env_ok),
                         dispatchMessage := Some ''No available responders.''\<rparr>),
        effects := [IncidentWrite ''I1'']\<rparr>) \<and>
   responders (snd (autoDispatch env_ok (Some ''I1'') world_all_busy)) = [(''R0'', responder_R0)] \<and>
   responders (snd (autoDispatch env_pending_write_down (Some ''I1'') world_all_busy))
     = [(''R0'', responder_R0)]"
proof -
  have h: "incidents world_all_busy ''I1'' = Some incident_I1" "''I1'' \<noteq> []"
    "status incident_I1 \<noteq> ''dispatched''" "status incident_I1 \<noteq> ''resolved''"
    "\<forall>row\<in>set (responders world_all_busy). \<not> is_available row"
    by (simp_all add: world_all_busy_def incident_I1_def responder_R0_def is_available_def)
  have ok: "get_fault env_ok = None" "query_fault env_ok = None" "pending_write_fault env_ok = None"
    by (simp_all add: env_ok_def)
  have r: "responders world_all_busy = [(''R0'', responder_R0)]"
    "\<not> is_available (''R0'', responder_R0)" "effects world_all_busy = []"
    by (simp_all add: world_all_busy_def responder_R0_def is_available_def)
  from no_capacity_marks_pending [OF h, of env_ok]
    no_capacity_marks_pending [OF h, of env_pending_write_down] h(1-4) ok r
  show ?thesis
    by simp
qed

text \<open>
  The claim as written has the incident set to \<^verbatim>\<open>pending_dispatch\<close> whenever no
  responder is available. When the store rejects the write of line 59, the
  \<^verbatim>\<open>catch\<close> block records \<^verbatim>\<open>dispatch_failed\<close> instead, and no diagnostic message.
\<close>

theorem no_capacity_counterexample:
  "incidents world_all_busy ''I1'' = Some incident_I1 \<and> status incident_I1 = ''pending'' \<and>
   responders world_all_busy = [(''R0'', responder_R0)] \<and> rstatus responder_R0 = ''en_route'' \<and>
   pending_write_fault env_pending_write_down = Some (JsError ''14 UNAVAILABLE'') \<and>
   fst (autoDispatch env_pending_write_down (Some ''I1'') world_all_busy) = Returned \<and>
   map_option status
       (incidents (snd (autoDispatch env_pending_write_down (Some ''I1'') world_all_busy)) ''I1'')
     = Some ''dispatch_failed'' \<and>
   map_option dispatchMessage
       (incidents (snd (autoDispatch env_pending_write_down (Some ''I1'') world_all_busy)) ''I1'')
     = Some None"
  by (simp add: call_defs dispatch_failed_fields_def world_all_busy_def incident_I1_def
      responder_R0_def env_pending_write_down_def env_ok_def)

section \<open>Which responder is selected\<close>

lemma relocate_decompose:
  "relocate place (pre @ (rid, r) # post) =
     relocate place pre @ (rid, r\<lparr>rlocation := place rid\<rparr>) # relocate place post"
  by (simp add: relocate_def)

lemma relocate_not_available:
  assumes "\<forall>row\<in>set pre. \<not> is_available row"
  shows "\<forall>row\<in>set (relocate place pre). \<not> is_available row"
  using assms by (auto simp: relocate_def is_available_def)

lemma relocate_ids: "map fst (relocate place rows) = map fst rows"
  by (induction rows) (auto simp: relocate_def)

text \<open>
  Claim C7. The query returns the single row of the first responder, in scan order,
  whose status is \<^verbatim>\<open>available\<close>: nothing else of the rows is looked at. Wherever the
  responders and the incident are located, the same responder is returned, and a
  dispatch in which every call succeeds assigns the incident to it.
\<close>

theorem selection_is_first_available:
  assumes "responders w = pre @ (rid, r) # post"
    and "\<forall>row\<in>set pre. \<not> is_available row"
    and "rstatus r = ''available''"
  shows "query_available None w = Inr [(rid, r)] \<and>
         query_available None (w\<lparr>responders := relocate place (responders w)\<rparr>)
           = Inr [(rid, r\<lparr>rlocation := place rid\<rparr>)] \<and>
         (incidents w k = Some d \<and> k \<noteq> [] \<and> status d \<noteq> ''dispatched'' \<and>
          status d \<noteq> ''resolved'' \<and> location d = Some loc \<and>
          distinct (map fst (responders w)) \<and> no_faults en \<longrightarrow>
            (\<forall>place loc'.
               map_option dispatchedTo
                 (incidents
                    (snd (autoDispatch en (Some k)
                       (w\<lparr>incidents := (incidents w)(k \<mapsto> d\<lparr>location := Some loc'\<rparr>),
                          responders := relocate place (responders w)\<rparr>))) k)
               = Some (Some rid)))"
proof (intro conjI impI allI)
  show "query_available None w = Inr [(rid, r)]"
    using query_first [OF assms] .
next
  let ?w = "w\<lparr>responders := relocate place (responders w)\<rparr>"
  have "responders ?w = relocate place pre @ (rid, r\<lparr>rlocation := place rid\<rparr>) # relocate place post"
    using assms(1) by (simp add: relocate_decompose)
  from query_first [OF this relocate_not_available [OF assms(2)]] assms(3)
  show "query_available None ?w = Inr [(rid, r\<lparr>rlocation := place rid\<rparr>)]"
    by simp
next
  fix place' loc'
  assume a: "incidents w k = Some d \<and> k \<noteq> [] \<and> status d \<noteq> ''dispatched'' \<and>
          status d \<noteq> ''resolved'' \<and> location d = Some loc \<and>
          distinct (map fst (responders w)) \<and> no_faults en"
  let ?d = "d\<lparr>location := Some loc'\<rparr>"
  let ?r = "r\<lparr>rlocation := place' rid\<rparr>"
  let ?w = "w\<lparr>incidents := (incidents w)(k \<mapsto> ?d), responders := relocate place' (responders w)\<rparr>"
  have inc: "incidents ?w k = Some ?d" "k \<noteq> []" "status ?d \<noteq> ''dispatched''"
    "status ?d \<noteq> ''resolved''"
    using a by simp_all
  have rows: "responders ?w = relocate place' pre @ (rid, ?r) # relocate place' post"
    "\<forall>row\<in>set (relocate place' pre). \<not> is_available row"
    "rstatus ?r = ''available''" "distinct (map fst (responders ?w))"
    using assms a relocate_not_available [OF assms(2)]
    by (simp_all add: relocate_decompose relocate_ids)
  have ok: "get_fault en = None" "query_fault en = None" "send_fault en = None"
    "incident_write_fault en = None" "responder_write_fault en = None"
    using a by (simp_all add: no_faults_def)
  have "\<exists>ns. notify_responder en k ?d rid ?r ?w = Inr (?w\<lparr>effects := effects ?w @ ns\<rparr>)"
  proof (cases "has_fcmToken ?r")
    case True
    then obtain tok where tok: "fcmToken ?r = Some tok" "tok \<noteq> []"
      by (auto simp: has_fcmToken_def split: option.splits)
    have "location ?d = Some loc'" by simp
    from notify_with_token [OF ok(3) this tok, of k rid ?w] show ?thesis
      by blast
  next
    case False
    from notify_without_token [OF this, of en k ?d rid ?w] show ?thesis
      by (intro exI [of _ "[]"]) simp
  qed
  then obtain ns where "notify_responder en k ?d rid ?r ?w = Inr (?w\<lparr>effects := effects ?w @ ns\<rparr>)" ..
  from dispatch_success [OF inc rows ok(1,2,4,5) this]
  show "map_option dispatchedTo (incidents (snd (autoDispatch en (Some k) ?w)) k) = Some (Some rid)"
    by (simp add: dispatched_fields_def)
qed

theorem selection_is_first_available_witness:
  "responders world_fleet = [(''R0'', responder_R0)] @ (''R1'', responder_R1) # [(''R2'', responder_R2)] \<and>
   \<not> is_available (''R0'', responder_R0) \<and> rstatus responder_R1 = ''available'' \<and>
   incidents world_fleet ''I1'' = Some incident_I1 \<and> status incident_I1 = ''pending'' \<and>
   location incident_I1 = Some \<lparr>latitude = ''12.97'', longitude = ''77.59''\<rparr> \<and>
   rlocation responder_R2 = location incident_I1 \<and> is_available (''R2'', responder_R2) \<and>
   distinct (map fst (responders world_fleet)) \<and> no_faults env_ok \<and>
   query_available None world_fleet = Inr [(''R1'', responder_R1)] \<and>
   query_available None (world_fleet\<lparr>responders := relocate (\<lambda>k. None) (responders world_fleet)\<rparr>)
     = Inr [(''R1'', responder_R1\<lparr>rlocation := None\<rparr>)] \<and>
   map_option dispatchedTo
     (incidents
        (snd (autoDispatch env_ok (Some ''I1'')
           (world_fleet
              \<lparr>incidents := (incidents world_fleet)
                 (''I1'' \<mapsto> incident_I1\<lparr>location := Some \<lparr>latitude = ''0'', longitude = ''0''\<rparr>\<rparr>),
               responders := relocate (\<lambda>k. None) (responders world_fleet)\<rparr>))) ''I1'')
     = Some (Some ''R1'')"
proof -
  have rows: "responders world_fleet
      = [(''R0'', responder_R0)] @ (''R1'', responder_R1) # [(''R2'', responder_R2)]"
    "\<forall>row\<in>set [(''R0'', responder_R0)]. \<not> is_available row"
    "rstatus responder_R1 = ''available''"
    by (simp_all add: world_fleet_def responder_R0_def responder_R1_def is_available_def)
  have h: "incidents world_fleet ''I1'' = Some incident_I1 \<and> ''I1'' \<noteq> [] \<and>
      status incident_I1 \<noteq> ''dispatched'' \<and> status incident_I1 \<noteq> ''resolved'' \<and>
      location incident_I1 = Some \<lparr>latitude = ''12.97'', longitude = ''77.59''\<rparr> \<and>
      distinct (map fst (responders world_fleet)) \<and> no_faults env_ok"
    by (simp add: world_fleet_def incident_I1_def no_faults_def env_ok_def)
  have more: "status incident_I1 = ''pending''" "rlocation responder_R2 = location incident_I1"
    "is_available (''R2'', responder_R2)" "\<not> is_available (''R0'', responder_R0)"
    by (simp_all add: incident_I1_def responder_R2_def responder_R0_def is_available_def)
  note inst = selection_is_first_available [OF rows, of "\<lambda>k. None" "''I1''" incident_I1
      "\<lparr>latitude = ''12.97'', longitude = ''77.59''\<rparr>" env_ok]
  from inst h have
    "map_option dispatchedTo
     (incidents
        (snd (autoDispatch env_ok (Some ''I1'')
           (world_fleet
              \<lparr>incidents := (incidents world_fleet)
                 (''I1'' \<mapsto> incident_I1\<lparr>location := Some \<lparr>latitude = ''0'', longitude = ''0''\<rparr>\<rparr>),
               responders := relocate (\<lambda>k. None) (responders world_fleet)\<rparr>))) ''I1'')
     = Some (Some ''R1'')"
    by blast
  with inst rows(1,3) h more show ?thesis
    by simp
qed

section \<open>The responder invariant\<close>

text \<open>
  Claim C9. A responder record that satisfies the invariant (status \<^verbatim>\<open>available\<close>
  implies no \<^verbatim>\<open>currentIncidentId\<close>) before an invocation satisfies it after the
  invocation, whatever the trigger payload is and whichever calls fail: the registry keeps
  its rows and their ids, and a row is either unchanged or has been set to
  \<^verbatim>\<open>en_route\<close> together with \<^verbatim>\<open>currentIncidentId\<close>.
\<close>

theorem responder_invariant_preserved:
  assumes "i < length (responders w)"
    and "responder_invariant (snd (responders w ! i))"
  shows "length (responders (snd (autoDispatch en p w))) = length (responders w) \<and>
         fst (responders (snd (autoDispatch en p w)) ! i) = fst (responders w ! i) \<and>
         responder_invariant (snd (responders (snd (autoDispatch en p w)) ! i)) \<and>
         (snd (responders (snd (autoDispatch en p w)) ! i) = snd (responders w ! i) \<or>
          (\<exists>k. p = Some k \<and>
             snd (responders (snd (autoDispatch en p w)) ! i)
               = (snd (responders w ! i))\<lparr>rstatus := ''en_route'', currentIncidentId := Some k\<rparr>))"
proof -
  from autoDispatch_responders [of en p w] show ?thesis
  proof (elim disjE exE conjE)
    assume "responders (snd (autoDispatch en p w)) = responders w"
    with assms show ?thesis by simp
  next
    fix k rid
    assume p: "p = Some k"
      and u: "responders (snd (autoDispatch en p w))
                = update_doc rid (en_route_fields k) (responders w)"
    from update_doc_nth [OF assms(1), of rid "en_route_fields k"]
    have "fst (update_doc rid (en_route_fields k) (responders w) ! i) = fst (responders w ! i)"
      and "snd (update_doc rid (en_route_fields k) (responders w) ! i) = snd (responders w ! i) \<or>
           snd (update_doc rid (en_route_fields k) (responders w) ! i)
             = en_route_fields k (snd (responders w ! i))"
      by simp_all
    moreover have "responder_invariant (en_route_fields k r)" for r
      by (simp add: responder_invariant_def en_route_fields_def)
    ultimately show ?thesis
      using assms(2) p u
      by (auto simp: update_doc_length en_route_fields_def)
  qed
qed

theorem responder_invariant_preserved_witness:
  "(1::nat) < length (responders world_fleet) \<and>
   responder_invariant (snd (responders world_fleet ! 1)) \<and>
   rstatus (snd (responders world_fleet ! 1)) = ''available'' \<and>
   length (responders (snd (autoDispatch env_ok (Some ''I1'') world_fleet))) = 3 \<and>
   fst (responders (snd (autoDispatch env_ok (Some ''I1'') world_fleet)) ! 1) = ''R1'' \<and>
   responder_invariant (snd (responders (snd (autoDispatch env_ok (Some ''I1'') world_fleet)) ! 1)) \<and>
   rstatus (snd (responders (snd (autoDispatch env_ok (Some ''I1'') world_fleet)) ! 1)) = ''en_route''"
proof -
  have h: "(1::nat) < length (responders world_fleet)"
    "responder_invariant (snd (responders world_fleet ! 1))"
    by (simp_all add: world_fleet_def responder_R1_def responder_invariant_def)
  have e: "rstatus (snd (responders world_fleet ! 1)) = ''available''"
    "length (responders world_fleet) = 3" "fst (responders world_fleet ! 1) = ''R1''"
    "rstatus (snd (responders (snd (autoDispatch env_ok (Some ''I1'') world_fleet)) ! 1)) = ''en_route''"
    by (simp_all add: run_fleet en_route_fields_def) (simp_all add: world_fleet_def responder_R1_def)
  from responder_invariant_preserved [OF h, of env_ok "Some ''I1''"] h e show ?thesis
    by simp
qed

section \<open>The effects of one invocation\<close>

text \<open>
  Claim C6, as the code has it. An invocation performs at most two incident document
  writes, at most one responder document write and at most one notification. It performs
  no write at all, and returns, when the trigger has no \<^verbatim>\<open>incidentId\<close>, or when
  the read finds no incident or an incident already \<^verbatim>\<open>dispatched\<close> or
  \<^verbatim>\<open>resolved\<close>. It performs exactly one incident write when the incident exists,
  is neither \<^verbatim>\<open>dispatched\<close> nor \<^verbatim>\<open>resolved\<close>, and no external call fails.
\<close>

theorem effects_per_invocation:
  "length (filter is_incident_write (performed w (snd (autoDispatch en p w)))) \<le> 2 \<and>
   length (filter is_responder_write (performed w (snd (autoDispatch en p w)))) \<le> 1 \<and>
   length (filter is_notification (performed w (snd (autoDispatch en p w)))) \<le> 1 \<and>
   (p = None \<or> p = Some [] \<or>
    (p = Some k \<and> get_fault en = None \<and>
       (incidents w k = None \<or>
        (incidents w k = Some d \<and> (status d = ''dispatched'' \<or> status d = ''resolved''))))
      \<longrightarrow> autoDispatch en p w = (Returned, w)) \<and>
   (p = Some k \<and> k \<noteq> [] \<and> incidents w k = Some d \<and>
    status d \<noteq> ''dispatched'' \<and> status d \<noteq> ''resolved'' \<and> no_faults en
      \<longrightarrow> length (filter is_incident_write (performed w (snd (autoDispatch en p w)))) = 1)"
proof -
  from autoDispatch_effects [of w en p] obtain ns ws where
    e: "performed w (snd (autoDispatch en p w)) = ns @ ws"
      "ns = [] \<or> (\<exists>m. ns = [Notification m])"
      "ws = [] \<or> (\<exists>k. p = Some k \<and>
        (ws = [IncidentWrite k] \<or> ws = [IncidentWrite k, IncidentWrite k] \<or>
         (\<exists>rid. ws = [IncidentWrite k, ResponderWrite rid])))"
    by blast
  have ns: "filter is_incident_write ns = []" "filter is_responder_write ns = []"
    "length (filter is_notification ns) \<le> 1"
    using e(2) by auto
  have ws: "length (filter is_incident_write ws) \<le> 2" "length (filter is_responder_write ws) \<le> 1"
    "filter is_notification ws = []"
    using e(3) by auto
  have bounds: "length (filter is_incident_write (performed w (snd (autoDispatch en p w)))) \<le> 2"
    "length (filter is_responder_write (performed w (snd (autoDispatch en p w)))) \<le> 1"
    "length (filter is_notification (performed w (snd (autoDispatch en p w)))) \<le> 1"
    using ns ws by (simp_all add: e(1))
  have guard: "autoDispatch en p w = (Returned, w)"
    if "p = None \<or> p = Some [] \<or>
       (p = Some k \<and> get_fault en = None \<and>
         (incidents w k = None \<or>
          (incidents w k = Some d \<and> (status d = ''dispatched'' \<or> status d = ''resolved''))))"
    using that
    by (auto simp: autoDispatch_def dispatch_try_def incident_get_def)
  have one: "length (filter is_incident_write (performed w (snd (autoDispatch en p w)))) = 1"
    if "p = Some k \<and> k \<noteq> [] \<and> incidents w k = Some d \<and>
        status d \<noteq> ''dispatched'' \<and> status d \<noteq> ''resolved'' \<and> no_faults en"
    using that one_incident_write [of k w d en] by simp
  from bounds guard one show ?thesis by blast
qed

theorem effects_per_invocation_witness:
  "get_fault env_ok = None \<and>
   incidents world_dispatched ''I1''
     = Some (incident_I1\<lparr>status := ''dispatched'', dispatchedTo := Some ''R0''\<rparr>) \<and>
   autoDispatch env_ok (Some ''I1'') world_dispatched = (Returned, world_dispatched) \<and>
   incidents world_example ''I1'' = Some incident_I1 \<and> status incident_I1 = ''pending'' \<and>
   no_faults env_ok \<and>
   length (filter is_incident_write
     (performed world_example (snd (autoDispatch env_ok (Some ''I1'') world_example)))) = 1 \<and>
   length (filter is_responder_write
     (performed world_example (snd (autoDispatch env_ok (Some ''I1'') world_example)))) \<le> 1 \<and>
   length (filter is_notification
     (performed world_example (snd (autoDispatch env_ok (Some ''I1'') world_example)))) \<le> 1"
proof -
  let ?d = "incident_I1\<lparr>status := ''dispatched'', dispatchedTo := Some ''R0''\<rparr>"
  have g: "get_fault env_ok = None" "incidents world_dispatched ''I1'' = Some ?d"
    "status ?d = ''dispatched''"
    by (simp_all add: env_ok_def world_dispatched_def)
  have h: "incidents world_example ''I1'' = Some incident_I1" "status incident_I1 = ''pending''"
    "status incident_I1 \<noteq> ''dispatched''" "status incident_I1 \<noteq> ''resolved''"
    "no_faults env_ok" "''I1'' \<noteq> []"
    by (simp_all add: world_example_def incident_I1_def no_faults_def env_ok_def)
  from effects_per_invocation [of world_dispatched env_ok "Some ''I1''" "''I1''" ?d] g
  have 1: "autoDispatch env_ok (Some ''I1'') world_dispatched = (Returned, world_dispatched)"
    by blast
  from effects_per_invocation [of world_example env_ok "Some ''I1''" "''I1''" incident_I1] h
  have 2: "length (filter is_incident_write
     (performed world_example (snd (autoDispatch env_ok (Some ''I1'') world_example)))) = 1"
    "length (filter is_responder_write
     (performed world_example (snd (autoDispatch env_ok (Some ''I1'') world_example)))) \<le> 1"
    "length (filter is_notification
     (performed world_example (snd (autoDispatch env_ok (Some ''I1'') world_example)))) \<le> 1"
    by blast+
  from g h 1 2 show ?thesis by blast
qed

text \<open>
  The claim as written has exactly one incident write in every invocation. For the
  incident of \<open>world_dispatched\<close>, already \<^verbatim>\<open>dispatched\<close>, the guard of lines 50-53
  returns before any write.
\<close>

theorem effects_per_invocation_counterexample:
  "map_option status (incidents world_dispatched ''I1'') = Some ''dispatched'' \<and>
   no_faults env_ok \<and>
   fst (autoDispatch env_ok (Some ''I1'') world_dispatched) = Returned \<and>
   length (filter is_incident_write
     (performed world_dispatched (snd (autoDispatch env_ok (Some ''I1'') world_dispatched)))) = 0"
  by (simp add: call_defs example_defs no_faults_def)

section \<open>The two writes of a dispatch\<close>

text \<open>
  Claim C5, as the code has it. The incident write and the responder write are two
  separate updates, the incident first. Whenever an invocation performs a responder
  write, it returns normally, the incident is \<^verbatim>\<open>dispatched\<close> to that responder and
  the responder is \<^verbatim>\<open>en_route\<close> with the matching \<^verbatim>\<open>currentIncidentId\<close>.
  Whenever an invocation has written the incident and leaves it \<^verbatim>\<open>dispatched\<close>,
  either it performed the responder write too, or the responder write and the failure
  write of the \<^verbatim>\<open>catch\<close> block were both rejected (and the handler rejects).
\<close>

theorem dual_write_ordering:
  "(ResponderWrite rid \<in> set (performed w (snd (autoDispatch en (Some k) w))) \<longrightarrow>
      fst (autoDispatch en (Some k) w) = Returned \<and>
      (\<exists>d' r'. incidents (snd (autoDispatch en (Some k) w)) k = Some d' \<and>
         status d' = ''dispatched'' \<and> dispatchedTo d' = Some rid \<and>
         lookup_doc rid (responders (snd (autoDispatch en (Some k) w))) = Some r' \<and>
         rstatus r' = ''en_route'' \<and> currentIncidentId r' = Some k)) \<and>
   (IncidentWrite k \<in> set (performed w (snd (autoDispatch en (Some k) w))) \<and>
    map_option status (incidents (snd (autoDispatch en (Some k) w)) k) = Some ''dispatched'' \<longrightarrow>
      (\<exists>rid'. ResponderWrite rid' \<in> set (performed w (snd (autoDispatch en (Some k) w)))) \<or>
      (responder_write_fault en \<noteq> None \<and> failure_write_fault en \<noteq> None \<and>
       fst (autoDispatch en (Some k) w) \<noteq> Returned))"
proof (cases "k = []")
  case True
  then show ?thesis by (simp add: autoDispatch_skip)
next
  case False
  obtain out w' where r: "autoDispatch en (Some k) w = (out, w')"
    by (cases "autoDispatch en (Some k) w")
  from r False show ?thesis
  proof (cases rule: autoDispatch_cases)
    case (untouched ns)
    with r show ?thesis by auto
  next
    case (pending d)
    with r show ?thesis by (simp add: pending_dispatch_fields_def)
  next
    case (failed d e ns)
    with r show ?thesis by (auto simp: dispatch_failed_fields_def)
  next
    case (half d rid' r' ns)
    with r show ?thesis by auto
  next
    case (reverted d rid' r' ns e)
    with r show ?thesis by (auto simp: dispatch_failed_fields_def)
  next
    case (assigned d rid' r' ns)
    from assigned(3) obtain r0 where r0: "lookup_doc rid' (responders w) = Some r0"
      using lookup_doc_present by fastforce
    have look: "lookup_doc rid' (responders w') = Some (en_route_fields k r0)"
      using assigned(6) r0 by (simp add: lookup_update_doc)
    have written: "ResponderWrite rid \<in> set (performed w w') \<longleftrightarrow> rid = rid'"
      "ResponderWrite rid' \<in> set (performed w w')"
      using assigned(1,6) by auto
    have inc: "incidents w' k = Some (dispatched_fields en rid' d)"
      using assigned(6) by simp
    have fields: "status (dispatched_fields en rid' d) = ''dispatched''"
      "dispatchedTo (dispatched_fields en rid' d) = Some rid'"
      "rstatus (en_route_fields k r0) = ''en_route''"
      "currentIncidentId (en_route_fields k r0) = Some k"
      by (simp_all add: dispatched_fields_def en_route_fields_def)
    from r assigned(5) look written inc fields show ?thesis
      by auto
  qed
qed

theorem dual_write_ordering_witness:
  "ResponderWrite ''R1''
     \<in> set (performed world_example (snd (autoDispatch env_ok (Some ''I1'') world_example))) \<and>
   fst (autoDispatch env_ok (Some ''I1'') world_example) = Returned \<and>
   (\<exists>d' r'. incidents (snd (autoDispatch env_ok (Some ''I1'') world_example)) ''I1'' = Some d' \<and>
      status d' = ''dispatched'' \<and> dispatchedTo d' = Some ''R1'' \<and>
      lookup_doc ''R1'' (responders (snd (autoDispatch env_ok (Some ''I1'') world_example))) = Some r' \<and>
      rstatus r' = ''en_route'' \<and> currentIncidentId r' = Some ''I1'') \<and>
   IncidentWrite ''I1''
     \<in> set (performed world_example (snd (autoDispatch env_registry_down (Some ''I1'') world_example))) \<and>
   map_option status (incidents (snd (autoDispatch env_registry_down (Some ''I1'') world_example)) ''I1'')
     = Some ''dispatched'' \<and>
   responder_write_fault env_registry_down \<noteq> None \<and>
   failure_write_fault env_registry_down \<noteq> None \<and>
   fst (autoDispatch env_registry_down (Some ''I1'') world_example) \<noteq> Returned"
proof -
  have e0: "effects world_example = []"
    by (simp add: world_example_def)
  have a: "ResponderWrite ''R1''
     \<in> set (performed world_example (snd (autoDispatch env_ok (Some ''I1'') world_example)))"
    by (simp add: run_example performed_def e0)
  have b: "IncidentWrite ''I1''
     \<in> set (performed world_example (snd (autoDispatch env_registry_down (Some ''I1'') world_example)))"
    "map_option status (incidents (snd (autoDispatch env_registry_down (Some ''I1'') world_example)) ''I1'')
     = Some ''dispatched''"
    "\<not> (\<exists>rid'. ResponderWrite rid'
       \<in> set (performed world_example (snd (autoDispatch env_registry_down (Some ''I1'') world_example))))"
    by (simp_all add: run_registry_down performed_def e0 dispatched_fields_def)
  from dual_write_ordering [of "''R1''" world_example env_ok "''I1''"] a
  have 1: "fst (autoDispatch env_ok (Some ''I1'') world_example) = Returned \<and>
   (\<exists>d' r'. incidents (snd (autoDispatch env_ok (Some ''I1'') world_example)) ''I1'' = Some d' \<and>
      status d' = ''dispatched'' \<and> dispatchedTo d' = Some ''R1'' \<and>
      lookup_doc ''R1'' (responders (snd (autoDispatch env_ok (Some ''I1'') world_example))) = Some r' \<and>
      rstatus r' = ''en_route'' \<and> currentIncidentId r' = Some ''I1'')"
    by blast
  from dual_write_ordering [of "''R1''" world_example env_registry_down "''I1''"] b
  have 2: "responder_write_fault env_registry_down \<noteq> None \<and>
   failure_write_fault env_registry_down \<noteq> None \<and>
   fst (autoDispatch env_registry_down (Some ''I1'') world_example) \<noteq> Returned"
    by blast
  from a b(1,2) 1 2 show ?thesis by blast
qed

text \<open>
  The claim as written has the two records updated atomically. When the store rejects
  the responder write of line 122 and then the failure write of line 133, the incident
  is left \<^verbatim>\<open>dispatched\<close> to \<^verbatim>\<open>R1\<close> while \<^verbatim>\<open>R1\<close> is still
  \<^verbatim>\<open>available\<close> with no \<^verbatim>\<open>currentIncidentId\<close>.
\<close>

theorem dual_write_counterexample:
  "responder_write_fault env_registry_down = Some (JsError ''14 UNAVAILABLE'') \<and>
   fst (autoDispatch env_registry_down (Some ''I1'') world_example)
     = Rejected (JsError ''14 UNAVAILABLE'') \<and>
   map_option status (incidents (snd (autoDispatch env_registry_down (Some ''I1'') world_example)) ''I1'')
     = Some ''dispatched'' \<and>
   map_option dispatchedTo (incidents (snd (autoDispatch env_registry_down (Some ''I1'') world_example)) ''I1'')
     = Some (Some ''R1'') \<and>
   responders (snd (autoDispatch env_registry_down (Some ''I1'') world_example))
     = [(''R1'', responder_R1)] \<and>
   rstatus responder_R1 = ''available'' \<and> currentIncidentId responder_R1 = None"
  by (simp add: run_registry_down dispatched_fields_def)
    (simp add: env_registry_down_def env_ok_def responder_R1_def)

section \<open>Errors thrown during a dispatch\<close>

lemma query_first_available:
  "query_available None w =
     Inr (case first_available (responders w) of None \<Rightarrow> [] | Some row \<Rightarrow> [row])"
proof -
  have "take 1 (filter (\<lambda>(k, r). rstatus r = ''available'') rows) =
      (case find is_available rows of None \<Rightarrow> [] | Some row \<Rightarrow> [row])" for rows
    by (induction rows) (auto simp: is_available_def)
  then show ?thesis
    by (simp add: query_available_def first_available_def)
qed

lemma notify_responder_Inl:
  "notify_responder en k d rid r w = Inl e \<longleftrightarrow>
     has_fcmToken r \<and>
     (if location d = None
      then e = JsError ''Cannot read properties of undefined (reading latitude)''
      else send_fault en = Some e)"
proof (cases "has_fcmToken r")
  case False
  then show ?thesis by (simp add: notify_without_token)
next
  case True
  then obtain tok where tok: "fcmToken r = Some tok" "tok \<noteq> []"
    by (auto simp: has_fcmToken_def split: option.splits)
  show ?thesis
  proof (cases "location d")
    case None
    with True tok show ?thesis
      by (auto simp: notify_responder_def build_message_def)
  next
    case (Some loc)
    with True tok show ?thesis
      by (cases "send_fault en") (simp_all add: notify_responder_def build_message_def messaging_send_def)
  qed
qed

text \<open>The step that throws first ends the \<^verbatim>\<open>try\<close> block with its error.\<close>

lemma step_throws_sound:
  assumes "step_throws en k w e"
  shows "fst (dispatch_try en k w) = Some e"
proof (cases "get_fault en")
  case (Some e')
  with assms have "e' = e" by (simp add: step_throws_def)
  with Some show ?thesis by (simp add: dispatch_try_def incident_get_def)
next
  case None
  with assms obtain d where inc: "incidents w k = Some d"
    by (cases "incidents w k") (simp_all add: step_throws_def)
  from assms None inc have st: "status d \<noteq> ''dispatched''" "status d \<noteq> ''resolved''"
    by (simp_all add: step_throws_def)
  have t0: "dispatch_try en k w =
      (case query_available (query_fault en) w of
               Inl e \<Rightarrow> (Some e, w)
             | Inr [] \<Rightarrow>
                 (case incident_update (pending_write_fault en) k (pending_dispatch_fields en) w of
                    Inl e \<Rightarrow> (Some e, w)
                  | Inr w1 \<Rightarrow> (None, w1))
             | Inr ((responderId, responderData) # _) \<Rightarrow>
                 (case notify_responder en k d responderId responderData w of
                    Inl e \<Rightarrow> (Some e, w)
                  | Inr w1 \<Rightarrow>
                      (case incident_update (incident_write_fault en) k
                              (dispatched_fields en responderId) w1 of
                         Inl e \<Rightarrow> (Some e, w1)
                       | Inr w2 \<Rightarrow>
                           (case responder_update (responder_write_fault en) responderId
                                   (en_route_fields k) w2 of
                              Inl e \<Rightarrow> (Some e, w2)
                            | Inr w3 \<Rightarrow> (None, w3)))))"
    using None inc st by (simp add: dispatch_try_def incident_get_def)
  show ?thesis
  proof (cases "query_fault en")
    case (Some e')
    with assms None inc have "e' = e" by (simp add: step_throws_def)
    with Some t0 show ?thesis by (simp add: query_available_def)
  next
    case q: None
    show ?thesis
    proof (cases "first_available (responders w)")
      case fa: None
      with assms None inc q have "pending_write_fault en = Some e"
        by (simp add: step_throws_def)
      with t0 q fa show ?thesis
        by (simp add: query_first_available incident_update_def)
    next
      case fa: (Some row)
      obtain rid r where row: "row = (rid, r)" by (cases row)
      from fa row have present: "(rid, r) \<in> set (responders w)"
        by (auto simp: first_available_def find_Some_iff)
      have look: "lookup_doc rid (responders w) \<noteq> None"
        using lookup_doc_present [OF present] .
      have t: "dispatch_try en k w =
              (case notify_responder en k d rid r w of
                 Inl e \<Rightarrow> (Some e, w)
               | Inr w1 \<Rightarrow>
                   (case incident_update (incident_write_fault en) k (dispatched_fields en rid) w1 of
                      Inl e \<Rightarrow> (Some e, w1)
                    | Inr w2 \<Rightarrow>
                        (case responder_update (responder_write_fault en) rid (en_route_fields k) w2 of
                           Inl e \<Rightarrow> (Some e, w2)
                         | Inr w3 \<Rightarrow> (None, w3))))"
        using t0 q fa row by (simp add: query_first_available)
      have s: "if has_fcmToken r \<and> location d = None
               then e = JsError ''Cannot read properties of undefined (reading latitude)''
               else if has_fcmToken r \<and> send_fault en \<noteq> None
               then send_fault en = Some e
               else if incident_write_fault en \<noteq> None
               then incident_write_fault en = Some e
               else responder_write_fault en = Some e"
        using assms None inc q fa row by (simp add: step_throws_def)
      show ?thesis
      proof (cases "notify_responder en k d rid r w")
        case (Inl e')
        then have "has_fcmToken r"
          "if location d = None
           then e' = JsError ''Cannot read properties of undefined (reading latitude)''
           else send_fault en = Some e'"
          by (simp_all add: notify_responder_Inl)
        with s have "e' = e" by (cases "location d = None") simp_all
        with Inl t show ?thesis by simp
      next
        case (Inr w1)
        from notify_responder_shape [OF Inr] obtain ns where
          w1: "w1 = w\<lparr>effects := effects w @ ns\<rparr>" by blast
        have no: "notify_responder en k d rid r w \<noteq> Inl x" for x
          using Inr by simp
        have ok1: "\<not> (has_fcmToken r \<and> location d = None)"
        proof
          assume "has_fcmToken r \<and> location d = None"
          then have "notify_responder en k d rid r w
              = Inl (JsError ''Cannot read properties of undefined (reading latitude)'')"
            by (simp add: notify_responder_Inl)
          with Inr show False by simp
        qed
        have ok2: "\<not> (has_fcmToken r \<and> send_fault en \<noteq> None)"
        proof
          assume a: "has_fcmToken r \<and> send_fault en \<noteq> None"
          then obtain x where "send_fault en = Some x" by auto
          with a ok1 have "notify_responder en k d rid r w = Inl x"
            by (auto simp: notify_responder_Inl)
          with Inr show False by simp
        qed
        note ok = ok1 ok2
        with s have s': "if incident_write_fault en \<noteq> None
               then incident_write_fault en = Some e
               else responder_write_fault en = Some e"
          by simp
        show ?thesis
        proof (cases "incident_write_fault en")
          case (Some e')
          with s' have "e' = e" by simp
          with Some Inr t show ?thesis
            by (simp add: incident_update_def)
        next
          case iw: None
          with s' have rw: "responder_write_fault en = Some e" by simp
          from iw inc w1 have "\<exists>w2. incident_update (incident_write_fault en) k
                              (dispatched_fields en rid) w1 = Inr w2"
            by (simp add: incident_update_def)
          then obtain w2 where w2: "incident_update (incident_write_fault en) k
                              (dispatched_fields en rid) w1 = Inr w2" ..
          with Inr t rw show ?thesis
            by (simp add: responder_update_def)
        qed
      qed
    qed
  qed
qed

text \<open>Conversely, every error the \<^verbatim>\<open>try\<close> block throws is thrown by one of these steps.\<close>

lemma step_throws_complete:
  assumes "fst (dispatch_try en k w) = Some e"
  shows "step_throws en k w e"
proof (cases "get_fault en")
  case (Some e')
  with assms have "e' = e" by (simp add: dispatch_try_def incident_get_def)
  with Some show ?thesis by (simp add: step_throws_def)
next
  case None
  show ?thesis
  proof (cases "incidents w k")
    case inc: None
    with None assms show ?thesis by (simp add: dispatch_try_def incident_get_def)
  next
    case inc: (Some d)
    have st: "status d \<noteq> ''dispatched''" "status d \<noteq> ''resolved''"
      using None inc assms by (auto simp: dispatch_try_def incident_get_def split: if_splits)
    have t0: "dispatch_try en k w =
      (case query_available (query_fault en) w of
               Inl e \<Rightarrow> (Some e, w)
             | Inr [] \<Rightarrow>
                 (case incident_update (pending_write_fault en) k (pending_dispatch_fields en) w of
                    Inl e \<Rightarrow> (Some e, w)
                  | Inr w1 \<Rightarrow> (None, w1))
             | Inr ((responderId, responderData) # _) \<Rightarrow>
                 (case notify_responder en k d responderId responderData w of
                    Inl e \<Rightarrow> (Some e, w)
                  | Inr w1 \<Rightarrow>
                      (case incident_update (incident_write_fault en) k
                              (dispatched_fields en responderId) w1 of
                         Inl e \<Rightarrow> (Some e, w1)
                       | Inr w2 \<Rightarrow>
                           (case responder_update (responder_write_fault en) responderId
                                   (en_route_fields k) w2 of
                              Inl e \<Rightarrow> (Some e, w2)
                            | Inr w3 \<Rightarrow> (None, w3)))))"
      using None inc st by (simp add: dispatch_try_def incident_get_def)
    show ?thesis
    proof (cases "query_fault en")
      case (Some e')
      with assms t0 have "e' = e" by (simp add: query_available_def)
      with Some None inc st show ?thesis by (simp add: step_throws_def)
    next
      case q: None
      show ?thesis
      proof (cases "first_available (responders w)")
        case fa: None
        with assms t0 q inc have "pending_write_fault en = Some e"
          by (cases "pending_write_fault en")
            (simp_all add: query_first_available incident_update_def)
        with None inc st q fa show ?thesis by (simp add: step_throws_def)
      next
        case fa: (Some row)
        obtain rid r where row: "row = (rid, r)" by (cases row)
        from fa row have present: "(rid, r) \<in> set (responders w)"
          by (auto simp: first_available_def find_Some_iff)
        have look: "lookup_doc rid (responders w) \<noteq> None"
          using lookup_doc_present [OF present] .
        have t: "dispatch_try en k w =
              (case notify_responder en k d rid r w of
                 Inl e \<Rightarrow> (Some e, w)
               | Inr w1 \<Rightarrow>
                   (case incident_update (incident_write_fault en) k (dispatched_fields en rid) w1 of
                      Inl e \<Rightarrow> (Some e, w1)
                    | Inr w2 \<Rightarrow>
                        (case responder_update (responder_write_fault en) rid (en_route_fields k) w2 of
                           Inl e \<Rightarrow> (Some e, w2)
                         | Inr w3 \<Rightarrow> (None, w3))))"
          using t0 q fa row by (simp add: query_first_available)
        have s: "step_throws en k w e \<longleftrightarrow>
              (if has_fcmToken r \<and> location d = None
               then e = JsError ''Cannot read properties of undefined (reading latitude)''
               else if has_fcmToken r \<and> send_fault en \<noteq> None
               then send_fault en = Some e
               else if incident_write_fault en \<noteq> None
               then incident_write_fault en = Some e
               else responder_write_fault en = Some e)"
          using None inc st q fa row by (simp add: step_throws_def)
        show ?thesis
        proof (cases "notify_responder en k d rid r w")
          case (Inl e')
          with assms t have "e' = e" by simp
          with Inl have "has_fcmToken r"
            "if location d = None
             then e = JsError ''Cannot read properties of undefined (reading latitude)''
             else send_fault en = Some e"
            by (simp_all add: notify_responder_Inl)
          then show ?thesis
            unfolding s by (cases "location d = None") auto
        next
          case (Inr w1)
          from notify_responder_shape [OF Inr] obtain ns where
            w1: "w1 = w\<lparr>effects := effects w @ ns\<rparr>" by blast
          have ok1: "\<not> (has_fcmToken r \<and> location d = None)"
          proof
            assume "has_fcmToken r \<and> location d = None"
            then have "notify_responder en k d rid r w
                = Inl (JsError ''Cannot read properties of undefined (reading latitude)'')"
              by (simp add: notify_responder_Inl)
            with Inr show False by simp
          qed
          have ok2: "\<not> (has_fcmToken r \<and> send_fault en \<noteq> None)"
          proof
            assume a: "has_fcmToken r \<and> send_fault en \<noteq> None"
            then obtain x where "send_fault en = Some x" by auto
            with a ok1 have "notify_responder en k d rid r w = Inl x"
              by (auto simp: notify_responder_Inl)
            with Inr show False by simp
          qed
          show ?thesis
          proof (cases "incident_write_fault en")
            case (Some e')
            with assms t Inr have "e' = e" by (simp add: incident_update_def)
            with Some ok1 ok2 show ?thesis unfolding s by auto
          next
            case iw: None
            from iw inc w1 obtain w2 where w2: "incident_update (incident_write_fault en) k
                              (dispatched_fields en rid) w1 = Inr w2"
              "responders w2 = responders w"
              by (simp add: incident_update_def)
            have "responder_write_fault en = Some e"
            proof (cases "responder_write_fault en")
              case None
              with assms t Inr w2 look show ?thesis
                by (simp add: responder_update_def split: option.splits)
            next
              case (Some e')
              with assms t Inr w2 show ?thesis
                by (simp add: responder_update_def)
            qed
            with iw ok1 ok2 show ?thesis unfolding s by auto
          qed
        qed
      qed
    qed
  qed
qed

text \<open>
  Without external failure: an incident without a location, and a responder with a
  token. Building the message throws, and the failure is recorded.
\<close>

lemma run_no_location:
  "autoDispatch env_ok (Some ''I1'') world_no_location =
     (Returned,
      \<lparr>incidents = [''I1'' \<mapsto> incident_I1
           \<lparr>location := None, status := ''dispatch_failed'',
            dispatchErrorMessage := Some ''Cannot read properties of undefined (reading latitude)'',
            dispatchAttemptedAt := Some 1000\<rparr>],
       responders = [(''R1'', responder_R1)], effects = [IncidentWrite ''I1'']\<rparr>)"
  by (simp add: call_defs dispatch_failed_fields_def world_no_location_def incident_I1_def
      responder_R1_def env_ok_def)

text \<open>
  Claim C4, as the code has it. Let a step of the \<^verbatim>\<open>try\<close> block throw an error on
  an incident that exists: the read, the query, the write of line 59, building or sending
  the notification, the incident write or the responder write. If the store accepts the
  update of the \<^verbatim>\<open>catch\<close> block, the handler returns and the incident ends with
  status \<^verbatim>\<open>dispatch_failed\<close> and with the thrown error's message recorded: a
  non-empty message whenever the error carries one. If the store rejects that update, the
  handler rejects with the store's error, no responder record is changed, and the incident
  store is as the \<^verbatim>\<open>try\<close> block left it: unchanged, or with the incident marked
  \<^verbatim>\<open>dispatched\<close> when the step that threw is the responder write.
\<close>

theorem thrown_error_recorded:
  assumes "step_throws en k w e"
    and "k \<noteq> []"
    and "incidents w k = Some d"
  shows "(failure_write_fault en = None \<longrightarrow>
            fst (autoDispatch en (Some k) w) = Returned \<and>
            (\<exists>d'. incidents (snd (autoDispatch en (Some k) w)) k = Some d' \<and>
               status d' = ''dispatch_failed'' \<and>
               dispatchErrorMessage d' = Some (message e) \<and>
               (message e \<noteq> [] \<longrightarrow> dispatchErrorMessage d' \<noteq> Some []))) \<and>
         (\<forall>e2. failure_write_fault en = Some e2 \<longrightarrow>
            fst (autoDispatch en (Some k) w) = Rejected e2 \<and>
            responders (snd (autoDispatch en (Some k) w)) = responders w \<and>
            (incidents (snd (autoDispatch en (Some k) w)) = incidents w \<or>
             (\<exists>rid. responder_write_fault en = Some e \<and>
                incidents (snd (autoDispatch en (Some k) w)) =
                  (incidents w)
                    (k \<mapsto> d\<lparr>status := ''dispatched'', dispatchedTo := Some rid,
                            routeDuration := Some simulatedRouteDuration,
                            dispatchedAt := Some (now en)\<rparr>))))"
proof -
  obtain w1 where t: "dispatch_try en k w = (Some e, w1)"
    using step_throws_sound [OF assms(1)] by (cases "dispatch_try en k w") simp
  from dispatch_try_keeps_incident [OF t assms(3)] obtain d1 where
    d1: "incidents w1 k = Some d1" ..
  have accepted: "fst (autoDispatch en (Some k) w) = Returned \<and>
            (\<exists>d'. incidents (snd (autoDispatch en (Some k) w)) k = Some d' \<and>
               status d' = ''dispatch_failed'' \<and>
               dispatchErrorMessage d' = Some (message e) \<and>
               (message e \<noteq> [] \<longrightarrow> dispatchErrorMessage d' \<noteq> Some []))"
    if "failure_write_fault en = None"
  proof -
    have "autoDispatch en (Some k) w =
        (Returned, w1\<lparr>incidents := (incidents w1)(k \<mapsto> dispatch_failed_fields en e d1),
                       effects := effects w1 @ [IncidentWrite k]\<rparr>)"
      using assms(2) that t d1 by (simp add: autoDispatch_def incident_update_def)
    then show ?thesis
      by (simp add: dispatch_failed_fields_def)
  qed
  have rejected: "fst (autoDispatch en (Some k) w) = Rejected e2 \<and>
            responders (snd (autoDispatch en (Some k) w)) = responders w \<and>
            (incidents (snd (autoDispatch en (Some k) w)) = incidents w \<or>
             (\<exists>rid. responder_write_fault en = Some e \<and>
                incidents (snd (autoDispatch en (Some k) w)) =
                  (incidents w)
                    (k \<mapsto> d\<lparr>status := ''dispatched'', dispatchedTo := Some rid,
                            routeDuration := Some simulatedRouteDuration,
                            dispatchedAt := Some (now en)\<rparr>)))"
    if f: "failure_write_fault en = Some e2" for e2
  proof -
    have r: "autoDispatch en (Some k) w = (Rejected e2, w1)"
      using assms(2) f t by (simp add: autoDispatch_def incident_update_def)
    from t show ?thesis
    proof (cases rule: dispatch_try_cases)
      case unchanged
      with r show ?thesis by simp
    next
      case (pending d0)
      then show ?thesis by simp
    next
      case (write1_failed d0 ns)
      with r show ?thesis by simp
    next
      case (write2_failed d0 rid r0 ns)
      with assms(3) have "d0 = d" "responder_write_fault en = Some e" by simp_all
      with r write2_failed(7) have "fst (autoDispatch en (Some k) w) = Rejected e2"
        "responders (snd (autoDispatch en (Some k) w)) = responders w"
        "responder_write_fault en = Some e \<and>
         incidents (snd (autoDispatch en (Some k) w)) =
           (incidents w)
             (k \<mapsto> d\<lparr>status := ''dispatched'', dispatchedTo := Some rid,
                     routeDuration := Some simulatedRouteDuration,
                     dispatchedAt := Some (now en)\<rparr>)"
        by (simp_all add: dispatched_fields_def)
      then show ?thesis by blast
    next
      case (assigned d0 rid r0 ns)
      then show ?thesis by simp
    qed
  qed
  from accepted rejected show ?thesis by blast
qed

lemma example_throws:
  "step_throws env_gateway_down ''I1'' world_example (JsError ''messaging/server-unavailable'')"
  "step_throws env_responder_write_down ''I1'' world_example (JsError ''14 UNAVAILABLE'')"
  "step_throws env_gateway_and_store_down ''I1'' world_example
     (JsError ''messaging/server-unavailable'')"
  "step_throws env_pending_write_down ''I1'' world_all_busy (JsError ''14 UNAVAILABLE'')"
  "step_throws env_read_down ''I1'' world_dispatched (JsError ''14 UNAVAILABLE'')"
  by (simp_all add: step_throws_def first_available_def is_available_def has_fcmToken_def
      example_defs env_read_down_def env_pending_write_down_def env_responder_write_down_def)

theorem thrown_error_recorded_witness:
  "step_throws env_gateway_down ''I1'' world_example (JsError ''messaging/server-unavailable'') \<and>
   send_fault env_gateway_down = Some (JsError ''messaging/server-unavailable'') \<and>
   failure_write_fault env_gateway_down = None \<and>
   ''I1'' \<noteq> [] \<and> incidents world_example ''I1'' = Some incident_I1 \<and>
   fst (autoDispatch env_gateway_down (Some ''I1'') world_example) = Returned \<and>
   map_option status (incidents (snd (autoDispatch env_gateway_down (Some ''I1'') world_example)) ''I1'')
     = Some ''dispatch_failed'' \<and>
   map_option dispatchErrorMessage
       (incidents (snd (autoDispatch env_gateway_down (Some ''I1'') world_example)) ''I1'')
     = Some (Some ''messaging/server-unavailable'') \<and>
   step_throws env_responder_write_down ''I1'' world_example (JsError ''14 UNAVAILABLE'') \<and>
   responder_write_fault env_responder_write_down = Some (JsError ''14 UNAVAILABLE'') \<and>
   failure_write_fault env_responder_write_down = None \<and>
   fst (autoDispatch env_responder_write_down (Some ''I1'') world_example) = Returned \<and>
   map_option status
       (incidents (snd (autoDispatch env_responder_write_down (Some ''I1'') world_example)) ''I1'')
     = Some ''dispatch_failed'' \<and>
   step_throws env_gateway_and_store_down ''I1'' world_example
     (JsError ''messaging/server-unavailable'') \<and>
   failure_write_fault env_gateway_and_store_down = Some (JsError ''14 UNAVAILABLE'') \<and>
   fst (autoDispatch env_gateway_and_store_down (Some ''I1'') world_example)
     = Rejected (JsError ''14 UNAVAILABLE'') \<and>
   responders (snd (autoDispatch env_gateway_and_store_down (Some ''I1'') world_example))
     = responders world_example"
proof -
  have h: "''I1'' \<noteq> []" "incidents world_example ''I1'' = Some incident_I1"
    by (simp_all add: world_example_def)
  have f: "send_fault env_gateway_down = Some (JsError ''messaging/server-unavailable'')"
    "failure_write_fault env_gateway_down = None"
    "responder_write_fault env_responder_write_down = Some (JsError ''14 UNAVAILABLE'')"
    "failure_write_fault env_responder_write_down = None"
    "failure_write_fault env_gateway_and_store_down = Some (JsError ''14 UNAVAILABLE'')"
    by (simp_all add: env_gateway_down_def env_responder_write_down_def
        env_gateway_and_store_down_def env_ok_def)
  from thrown_error_recorded [OF example_throws(1) h] f(2) obtain d' where
    1: "fst (autoDispatch env_gateway_down (Some ''I1'') world_example) = Returned"
    "incidents (snd (autoDispatch env_gateway_down (Some ''I1'') world_example)) ''I1'' = Some d'"
    "status d' = ''dispatch_failed''"
    "dispatchErrorMessage d' = Some (message (JsError ''messaging/server-unavailable''))"
    by blast
  from thrown_error_recorded [OF example_throws(2) h] f(4) obtain d'' where
    2: "fst (autoDispatch env_responder_write_down (Some ''I1'') world_example) = Returned"
    "incidents (snd (autoDispatch env_responder_write_down (Some ''I1'') world_example)) ''I1''
       = Some d''"
    "status d'' = ''dispatch_failed''"
    by blast
  from thrown_error_recorded [OF example_throws(3) h] f(5) have
    3: "fst (autoDispatch env_gateway_and_store_down (Some ''I1'') world_example)
         = Rejected (JsError ''14 UNAVAILABLE'')"
    "responders (snd (autoDispatch env_gateway_and_store_down (Some ''I1'') world_example))
       = responders world_example"
    by blast+
  from example_throws(1-3) h f 1 2 3 show ?thesis
    by simp
qed

text \<open>
  The claim as written has the incident end in \<^verbatim>\<open>dispatch_failed\<close> whenever a step
  throws. When the notification gateway throws and the store then rejects the failure
  write of line 133, the handler rejects and the incident keeps the status it had,
  \<^verbatim>\<open>pending\<close>, with no error message recorded.
\<close>

theorem thrown_error_counterexample:
  "send_fault env_gateway_and_store_down = Some (JsError ''messaging/server-unavailable'') \<and>
   fst (dispatch_try env_gateway_and_store_down ''I1'' world_example)
     = Some (JsError ''messaging/server-unavailable'') \<and>
   fst (autoDispatch env_gateway_and_store_down (Some ''I1'') world_example)
     = Rejected (JsError ''14 UNAVAILABLE'') \<and>
   map_option status
       (incidents (snd (autoDispatch env_gateway_and_store_down (Some ''I1'') world_example)) ''I1'')
     = Some ''pending'' \<and>
   map_option dispatchErrorMessage
       (incidents (snd (autoDispatch env_gateway_and_store_down (Some ''I1'') world_example)) ''I1'')
     = Some None"
  by (simp add: run_gateway_and_store_down)
    (simp add: env_gateway_and_store_down_def world_example_def incident_I1_def)

section \<open>Errors thrown during an analysis\<close>

lemma null_in_parts_Some:
  assumes "null_in_parts ps = Some e"
  shows "extract_summary (JsonObject (Some (Some (Candidate (Some (Content (Some ps)))) # cs))) = Inl e"
  using assms by (cases ps rule: null_in_parts.cases) (simp_all add: extract_summary_def)

lemma null_in_parts_None:
  assumes "null_in_parts ps = None"
  shows "\<exists>s. extract_summary (JsonObject (Some (Some (Candidate (Some (Content (Some ps)))) # cs))) = Inr s"
  using assms by (cases ps rule: null_in_parts.cases) (simp_all add: extract_summary_def)

lemma reads_null_Some:
  assumes "reads_null result = Some e"
  shows "extract_summary result = Inl e"
proof (cases result rule: reads_null.cases)
  case 1
  with assms show ?thesis by (simp add: extract_summary_def)
next
  case 2
  with assms show ?thesis by simp
next
  case (3 cs)
  with assms have c: "null_in_candidates cs = Some e" by simp
  show ?thesis
  proof (cases cs rule: null_in_candidates.cases)
    case (5 ps rest)
    with c 3 show ?thesis by (simp add: null_in_parts_Some)
  qed (use c 3 in \<open>simp_all add: extract_summary_def\<close>)
qed

lemma reads_null_None:
  assumes "reads_null result = None"
  shows "\<exists>s. extract_summary result = Inr s"
proof (cases result rule: reads_null.cases)
  case 1
  with assms show ?thesis by simp
next
  case 2
  then show ?thesis by (simp add: extract_summary_def)
next
  case (3 cs)
  with assms have c: "null_in_candidates cs = None" by simp
  show ?thesis
  proof (cases cs rule: null_in_candidates.cases)
    case (5 ps rest)
    with c 3 show ?thesis by (simp add: null_in_parts_None)
  qed (use c 3 in \<open>simp_all add: extract_summary_def\<close>)
qed

lemma analysis_throws_sound:
  assumes "analysis_throws en trig e"
    and "t_incidentId trig = Some k" "k \<noteq> []"
  shows "analyze_try en trig w = (Some e, w)"
proof (cases "gemini_fetch en (build_prompt trig (simulated_visionInsights (t_anomalyType trig)))")
  case (Inl e')
  with assms(1) have "e' = e" by (simp add: analysis_throws_def)
  with Inl show ?thesis by (simp add: analyze_try_def)
next
  case (Inr body)
  show ?thesis
  proof (cases body)
    case (Inl e')
    with Inr assms(1) have "e' = e" by (simp add: analysis_throws_def)
    with Inl Inr show ?thesis by (simp add: analyze_try_def)
  next
    case result: (Inr result)
    show ?thesis
    proof (cases "reads_null result")
      case (Some e')
      with Inr result assms(1) have "e' = e" by (simp add: analysis_throws_def)
      with Some have "extract_summary result = Inl e" by (simp add: reads_null_Some)
      with Inr result show ?thesis by (simp add: analyze_try_def)
    next
      case None
      with Inr result assms(1) have f: "analyzed_write_fault en = Some e"
        by (simp add: analysis_throws_def)
      from reads_null_None [OF None] obtain s where "extract_summary result = Inr s" ..
      with Inr result f assms(2,3) show ?thesis
        by (simp add: analyze_try_def incidents_doc_def incident_update_def)
    qed
  qed
qed

text \<open>Conversely, every error the \<^verbatim>\<open>try\<close> block throws is thrown by one of these steps.\<close>

lemma analysis_throws_complete:
  assumes "fst (analyze_try en trig w) = Some e"
    and "t_incidentId trig = Some k" "k \<noteq> []" "incidents w k = Some d"
  shows "analysis_throws en trig e"
proof (cases "gemini_fetch en (build_prompt trig (simulated_visionInsights (t_anomalyType trig)))")
  case (Inl e')
  with assms(1) have "e' = e" by (simp add: analyze_try_def)
  with Inl show ?thesis by (simp add: analysis_throws_def)
next
  case (Inr body)
  show ?thesis
  proof (cases body)
    case (Inl e')
    with Inr assms(1) have "e' = e" by (simp add: analyze_try_def)
    with Inl Inr show ?thesis by (simp add: analysis_throws_def)
  next
    case result: (Inr result)
    show ?thesis
    proof (cases "reads_null result")
      case (Some e')
      then have "extract_summary result = Inl e'" by (simp add: reads_null_Some)
      with Inr result assms(1) have "e' = e" by (simp add: analyze_try_def)
      with Some Inr result show ?thesis by (simp add: analysis_throws_def)
    next
      case None
      from reads_null_None [OF None] obtain s where "extract_summary result = Inr s" ..
      with Inr result assms have "analyzed_write_fault en = Some e"
        by (cases "analyzed_write_fault en")
          (simp_all add: analyze_try_def incidents_doc_def incident_update_def)
      with None Inr result show ?thesis by (simp add: analysis_throws_def)
    qed
  qed
qed

text \<open>
  Claim C8, as the code has it. Let an exception occur in the \<^verbatim>\<open>try\<close> block of the
  analysis of an incident that exists: the network call rejects, the body is not JSON, a
  property of \<^verbatim>\<open>null\<close> is read, or the store rejects the write. If the store accepts
  the update of the \<^verbatim>\<open>catch\<close> block, the handler returns and the incident's status
  becomes \<^verbatim>\<open>analysis_failed\<close> with the error's message recorded. If the store rejects
  that update, the handler rejects with the store's error and nothing is changed: the
  incident keeps its status.
\<close>

theorem analysis_error_recorded:
  assumes "analysis_throws en trig e"
    and "t_incidentId trig = Some k" "k \<noteq> []"
    and "incidents w k = Some d"
  shows "(failed_write_fault en = None \<longrightarrow>
            onNewIncident en trig w =
              (Returned,
               w\<lparr>incidents := (incidents w)
                    (k \<mapsto> d\<lparr>status := ''analysis_failed'',
                            errorMessage := Some (message e),
                            analyzedAt := Some (a_now en)\<rparr>),
                 effects := effects w @ [IncidentWrite k]\<rparr>)) \<and>
         (\<forall>e2. failed_write_fault en = Some e2 \<longrightarrow>
            onNewIncident en trig w = (Rejected e2, w))"
proof -
  have t: "analyze_try en trig w = (Some e, w)"
    using analysis_throws_sound [OF assms(1-3)] .
  then show ?thesis
    using assms(2-4)
    by (simp add: onNewIncident_def incidents_doc_def incident_update_def
        analysis_failed_fields_def)
qed

lemma example_analysis_throws:
  "analysis_throws aenv_network_down trigger_I1 (JsError ''fetch failed'')"
  "analysis_throws aenv_null_body trigger_I1
     (JsError ''Cannot read properties of null (reading candidates)'')"
  "analysis_throws aenv_write_rejected trigger_I1 (JsError ''14 UNAVAILABLE'')"
  "analysis_throws aenv_network_and_store_down trigger_I1 (JsError ''fetch failed'')"
  by (simp_all add: analysis_throws_def aenv_network_down_def aenv_null_body_def
      aenv_write_rejected_def aenv_network_and_store_down_def aenv_answer_def)

theorem analysis_error_recorded_witness:
  "analysis_throws aenv_network_down trigger_I1 (JsError ''fetch failed'') \<and>
   t_incidentId trigger_I1 = Some ''I1'' \<and> ''I1'' \<noteq> [] \<and>
   incidents world_example ''I1'' = Some incident_I1 \<and>
   failed_write_fault aenv_network_down = None \<and>
   map_option status (incidents (snd (onNewIncident aenv_network_down trigger_I1 world_example)) ''I1'')
     = Some ''analysis_failed'' \<and>
   map_option errorMessage (incidents (snd (onNewIncident aenv_network_down trigger_I1 world_example)) ''I1'')
     = Some (Some ''fetch failed'') \<and>
   analysis_throws aenv_null_body trigger_I1
     (JsError ''Cannot read properties of null (reading candidates)'') \<and>
   failed_write_fault aenv_null_body = None \<and>
   map_option status (incidents (snd (onNewIncident aenv_null_body trigger_I1 world_example)) ''I1'')
     = Some ''analysis_failed'' \<and>
   analysis_throws aenv_write_rejected trigger_I1 (JsError ''14 UNAVAILABLE'') \<and>
   failed_write_fault aenv_write_rejected = None \<and>
   map_option status (incidents (snd (onNewIncident aenv_write_rejected trigger_I1 world_example)) ''I1'')
     = Some ''analysis_failed'' \<and>
   analysis_throws aenv_network_and_store_down trigger_I1 (JsError ''fetch failed'') \<and>
   failed_write_fault aenv_network_and_store_down = Some (JsError ''14 UNAVAILABLE'') \<and>
   onNewIncident aenv_network_and_store_down trigger_I1 world_example
     = (Rejected (JsError ''14 UNAVAILABLE''), world_example)"
proof -
  have h: "t_incidentId trigger_I1 = Some ''I1''" "''I1'' \<noteq> []"
    "incidents world_example ''I1'' = Some incident_I1"
    by (simp_all add: trigger_I1_def world_example_def)
  have f: "failed_write_fault aenv_network_down = None" "failed_write_fault aenv_null_body = None"
    "failed_write_fault aenv_write_rejected = None"
    "failed_write_fault aenv_network_and_store_down = Some (JsError ''14 UNAVAILABLE'')"
    by (simp_all add: aenv_network_down_def aenv_null_body_def aenv_write_rejected_def
        aenv_network_and_store_down_def aenv_answer_def)
  from analysis_error_recorded [OF example_analysis_throws(1) h] f(1)
  have 1: "map_option status
        (incidents (snd (onNewIncident aenv_network_down trigger_I1 world_example)) ''I1'')
      = Some ''analysis_failed''"
    "map_option errorMessage
        (incidents (snd (onNewIncident aenv_network_down trigger_I1 world_example)) ''I1'')
      = Some (Some ''fetch failed'')"
    by simp_all
  from analysis_error_recorded [OF example_analysis_throws(2) h] f(2)
  have 2: "map_option status
        (incidents (snd (onNewIncident aenv_null_body trigger_I1 world_example)) ''I1'')
      = Some ''analysis_failed''"
    by simp
  from analysis_error_recorded [OF example_analysis_throws(3) h] f(3)
  have 3: "map_option status
        (incidents (snd (onNewIncident aenv_write_rejected trigger_I1 world_example)) ''I1'')
      = Some ''analysis_failed''"
    by simp
  from analysis_error_recorded [OF example_analysis_throws(4) h] f(4)
  have 4: "onNewIncident aenv_network_and_store_down trigger_I1 world_example
     = (Rejected (JsError ''14 UNAVAILABLE''), world_example)"
    by simp
  from example_analysis_throws h f 1 2 3 4 show ?thesis
    by simp
qed

lemma run_network_down:
  "analyze_try aenv_network_and_store_down trigger_I1 world_example
     = (Some (JsError ''fetch failed''), world_example)"
  by (simp add: analyze_try_def aenv_network_and_store_down_def aenv_answer_def)

text \<open>
  The claim as written has the status become \<^verbatim>\<open>analysis_failed\<close> whenever an
  exception occurs. When the network call rejects and the store then rejects the update
  of the \<^verbatim>\<open>catch\<close> block (line 106), the handler rejects and the incident keeps its
  status, \<^verbatim>\<open>pending\<close>, with no error message recorded.
\<close>

theorem analysis_error_counterexample:
  "fst (analyze_try aenv_network_and_store_down trigger_I1 world_example)
     = Some (JsError ''fetch failed'') \<and>
   fst (onNewIncident aenv_network_and_store_down trigger_I1 world_example)
     = Rejected (JsError ''14 UNAVAILABLE'') \<and>
   map_option status
       (incidents (snd (onNewIncident aenv_network_and_store_down trigger_I1 world_example)) ''I1'')
     = Some ''pending'' \<and>
   map_option errorMessage
       (incidents (snd (onNewIncident aenv_network_and_store_down trigger_I1 world_example)) ''I1'')
     = Some None"
  by (simp add: onNewIncident_def run_network_down)
    (simp add: incidents_doc_def incident_update_def trigger_I1_def world_example_def
      incident_I1_def aenv_network_and_store_down_def aenv_answer_def)

text \<open>
  What counts as an exception at lines 72-89. A body that is not JSON makes
  \<^verbatim>\<open>response.json()\<close> reject, and the status becomes \<^verbatim>\<open>analysis_failed\<close>. A body
  that decodes but has no candidate is not an exception: the fallback summary is recorded
  and the status becomes \<^verbatim>\<open>analyzed\<close>.
\<close>

lemma run_not_json:
  "onNewIncident aenv_not_json trigger_I1 world_example =
     (Returned,
      \<lparr>incidents = [''I1'' \<mapsto> incident_I1
           \<lparr>status := ''analysis_failed'',
            errorMessage := Some ''Unexpected token < in JSON at position 0'',
            analyzedAt := Some 1000\<rparr>],
       responders = [(''R1'', responder_R1)], effects = [IncidentWrite ''I1'']\<rparr>)"
  by (simp add: onNewIncident_def analyze_try_def incidents_doc_def incident_update_def
      analysis_failed_fields_def aenv_not_json_def aenv_answer_def trigger_I1_def world_example_def)

lemma run_no_candidates:
  "onNewIncident aenv_no_candidates trigger_I1 world_example =
     (Returned,
      \<lparr>incidents = [''I1'' \<mapsto> incident_I1
           \<lparr>status := ''analyzed'',
            visionInsights := Some [''Detailed analysis of crowd_surge confirmed.'',
                                    ''Crowd movement patterns analyzed.''],
            geminiSummary := Some ''AI analysis inconclusive or response format error.'',
            processingTimeMs := Some 2500,
            analyzedAt := Some 1000\<rparr>],
       responders = [(''R1'', responder_R1)], effects = [IncidentWrite ''I1'']\<rparr>)"
  by (simp add: onNewIncident_def analyze_try_def extract_summary_def incidents_doc_def
      incident_update_def analyzed_fields_def simulated_visionInsights_def
      aenv_no_candidates_def aenv_answer_def trigger_I1_def world_example_def)


end
